theory Spec2Isabelle
  imports Complex_Main
begin

section \<open>Data model (src/core/models.py)\<close>

text \<open>
  Python floats are modelled as real numbers, and the two-element numpy arrays that hold a
  keypoint as pairs of reals: \<open>p[0]\<close> is \<open>fst p\<close> and \<open>p[1]\<close> is \<open>snd p\<close>.
  The attributes \<open>frames_collected\<close> and \<open>calibration_frames\<close> of a detector and
  \<open>total_detections\<close> of the coordinator are only ever set to a non-negative literal and
  incremented, so they are natural numbers. The fields of a configuration are whatever the
  caller supplies: its integers are integers.
\<close>

datatype exercise_type =
  CERVICAL_FLEXION | CERVICAL_EXTENSION | LATERAL_NECK_TILT | NECK_ROTATION | CHIN_TUCK

datatype detection_status = CALIBRATING | READY | DETECTED | NOT_DETECTED | ERROR

type_synonym point = "real \<times> real"

record landmark_points =
  nose :: point
  left_ear :: point
  right_ear :: point
  left_shoulder :: point
  right_shoulder :: point

text \<open>
  A value stored in the \<open>metrics\<close> dictionary of a result: a float or a string.
\<close>

datatype metric_value = MFloat real | MStr string

type_synonym metrics_dict = "(string \<times> metric_value) list"

text \<open>
  A status message is an f-string: literal pieces and formatted numbers. The formatted
  numbers are kept as values (\<open>Fmt2f x\<close> for \<open>{x:.2f}\<close>, \<open>Fmt0f x\<close> for
  \<open>{x:.0f}\<close>, \<open>FmtInt n\<close> and \<open>FmtVal v\<close> for \<open>{n}\<close>). The pictographs that open the literals of
  the source are left out of the literals.
\<close>

datatype msg_part = Lit string | Fmt2f real | Fmt0f real | FmtInt nat | FmtVal metric_value

type_synonym message = "msg_part list"

record exercise_result =
  exercise_type :: exercise_type
  detected :: bool
  confidence :: real
  status :: detection_status
  status_message :: message
  metrics :: "metrics_dict option"
  timestamp :: "real option"

definition ExerciseResult ::
  "exercise_type \<Rightarrow> bool \<Rightarrow> real \<Rightarrow> detection_status \<Rightarrow> message \<Rightarrow> metrics_dict option
    \<Rightarrow> exercise_result" where
  "ExerciseResult t d c s m ms =
     \<lparr>exercise_type = t, detected = d, confidence = c, status = s, status_message = m,
      metrics = ms, timestamp = None\<rparr>"

record system_config =
  flexion_threshold :: real
  extension_threshold :: real
  tilt_threshold :: real
  rotation_threshold :: real
  chin_tuck_threshold :: real
  calibration_frames :: int
  confidence_smoothing :: real
  min_detection_confidence :: real
  min_tracking_confidence :: real
  model_complexity :: int
  fps_limit :: int
  video_width :: int
  video_height :: int

definition SystemConfig :: system_config where
  "SystemConfig =
     \<lparr>flexion_threshold = 0.85, extension_threshold = 1.15, tilt_threshold = 0.15,
      rotation_threshold = 1.5, chin_tuck_threshold = 0.8,
      calibration_frames = 15, confidence_smoothing = 0.3,
      min_detection_confidence = 0.5, min_tracking_confidence = 0.5, model_complexity = 1,
      fps_limit = 15, video_width = 640, video_height = 480\<rparr>"

text \<open>Exceptions are values; \<open>str_exn\<close> is Python's \<open>str(e)\<close>.\<close>

datatype exn =
  AttributeError string | TypeError string | IndexError string | KeyError string
| ValueError string | RuntimeError string

fun str_exn :: "exn \<Rightarrow> string" where
  "str_exn (AttributeError m) = m"
| "str_exn (TypeError m) = m"
| "str_exn (IndexError m) = m"
| "str_exn (KeyError m) = m"
| "str_exn (ValueError m) = m"
| "str_exn (RuntimeError m) = m"

section \<open>Geometry utilities (src/utils/geometry.py)\<close>

definition calculate_distance :: "point \<Rightarrow> point \<Rightarrow> real" where
  "calculate_distance point1 point2 =
     sqrt ((fst point1 - fst point2)\<^sup>2 + (snd point1 - snd point2)\<^sup>2)"

text \<open>
  \<open>calculate_ratio\<close> is called with a baseline attribute that is \<open>None\<close> until a
  calibration has been finalized. \<open>None == 0\<close> is false and dividing a float by
  \<open>None\<close> raises \<open>TypeError\<close>.
\<close>

definition calculate_ratio :: "real \<Rightarrow> real option \<Rightarrow> exn + real" where
  "calculate_ratio distance baseline =
     (case baseline of
        None \<Rightarrow> Inl (TypeError ''unsupported operand type(s) for /'')
      | Some b \<Rightarrow> if b = 0 then Inr 1.0 else Inr (distance / b))"

definition smooth_value :: "real \<Rightarrow> real \<Rightarrow> real \<Rightarrow> real" where
  "smooth_value current previous smoothing_factor =
     smoothing_factor * current + (1 - smoothing_factor) * previous"

text \<open>The default value of the parameter \<open>smoothing_factor\<close>.\<close>

definition smooth_value_default :: "real \<Rightarrow> real \<Rightarrow> real" where
  "smooth_value_default current previous = smooth_value current previous 0.3"

text \<open>
  \<open>numpy.median\<close> of a non-empty list: the middle element of the sorted list, or the mean
  of the two middle elements when the length is even. Every call in the source is guarded
  by a test that the list is not empty.
\<close>

definition np_median :: "real list \<Rightarrow> real" where
  "np_median xs =
     (let s = sort xs; n = length s
      in if n mod 2 = 1 then s ! (n div 2) else (s ! (n div 2 - 1) + s ! (n div 2)) / 2)"

text \<open>
  The pose model's result: \<open>pose_landmarks\<close> is absent or a list of normalized keypoints.
  Indexing past the end of the list raises \<open>IndexError\<close>, which \<open>extract_landmarks\<close>
  catches and turns into \<open>None\<close>.
\<close>

record pose_results =
  pose_landmarks :: "point list option"

definition landmark_at :: "point list \<Rightarrow> nat \<Rightarrow> exn + point" where
  "landmark_at landmarks i =
     (if i < length landmarks then Inr (landmarks ! i)
      else Inl (IndexError ''list index out of range''))"

definition scaled :: "exn + point \<Rightarrow> real \<Rightarrow> real \<Rightarrow> exn + point" where
  "scaled p w h = (case p of Inl e \<Rightarrow> Inl e | Inr q \<Rightarrow> Inr (fst q * w, snd q * h))"

definition extract_landmarks :: "pose_results \<Rightarrow> real \<times> real \<Rightarrow> landmark_points option" where
  "extract_landmarks pr frame_shape =
     (case pose_landmarks pr of
        None \<Rightarrow> None
      | Some landmarks \<Rightarrow>
          (let h = fst frame_shape; w = snd frame_shape
           in case (scaled (landmark_at landmarks 0) w h, scaled (landmark_at landmarks 7) w h,
                    scaled (landmark_at landmarks 8) w h, scaled (landmark_at landmarks 11) w h,
                    scaled (landmark_at landmarks 12) w h) of
                (Inr n, Inr le, Inr re, Inr ls, Inr rs) \<Rightarrow>
                  Some \<lparr>nose = n, left_ear = le, right_ear = re,
                        left_shoulder = ls, right_shoulder = rs\<rparr>
              | _ \<Rightarrow> None))"

section \<open>Detectors (src/core/detection_system.py)\<close>

subsection \<open>The attributes of a detector\<close>

text \<open>
  \<open>base_detector\<close> holds the attributes that \<open>BaseDetector.__init__\<close> sets. A detector
  object is one constructor of \<open>detector\<close> per subclass, carrying the base attributes and
  the attributes the subclass's \<open>__init__\<close> adds.
\<close>

record base_detector =
  exercise_type :: exercise_type
  config :: system_config
  calibration_frames :: nat
  frames_collected :: nat
  is_calibrated :: bool
  previous_confidence :: real

datatype detector =
  CervicalFlexionDetector
    (base: base_detector) (baseline_distance: "real option")
    (calibration_distances: "real list") (threshold: real)
| CervicalExtensionDetector
    (base: base_detector) (baseline_distance: "real option")
    (calibration_distances: "real list") (threshold: real)
| LateralNeckTiltDetector
    (base: base_detector) (baseline_left: "real option") (baseline_right: "real option")
    (calibration_left: "real list") (calibration_right: "real list") (threshold: real)
| NeckRotationDetector
    (base: base_detector) (baseline_left: "real option") (baseline_right: "real option")
    (calibration_left: "real list") (calibration_right: "real list") (threshold: real)
| ChinTuckDetector
    (base: base_detector) (baseline_offset: "real option") (baseline_depth: "real option")
    (calibration_offsets: "real list") (calibration_depths: "real list") (threshold: real)

text \<open>An assignment to attributes of the base class, on any detector.\<close>

fun update_base :: "(base_detector \<Rightarrow> base_detector) \<Rightarrow> detector \<Rightarrow> detector" where
  "update_base f (CervicalFlexionDetector b bd cd th) = CervicalFlexionDetector (f b) bd cd th"
| "update_base f (CervicalExtensionDetector b bd cd th) =
     CervicalExtensionDetector (f b) bd cd th"
| "update_base f (LateralNeckTiltDetector b bl br cl cr th) =
     LateralNeckTiltDetector (f b) bl br cl cr th"
| "update_base f (NeckRotationDetector b bl br cl cr th) =
     NeckRotationDetector (f b) bl br cl cr th"
| "update_base f (ChinTuckDetector b bo bp co cp th) = ChinTuckDetector (f b) bo bp co cp th"

subsection \<open>Construction\<close>

text \<open>
  \<open>config or SystemConfig()\<close>: an absent configuration is replaced by the default one.
  The attribute \<open>calibration_frames\<close> is assigned the literal 15.
\<close>

definition BaseDetector_init :: "exercise_type \<Rightarrow> system_config option \<Rightarrow> base_detector" where
  "BaseDetector_init t cfg =
     \<lparr>exercise_type = t,
      config = (case cfg of None \<Rightarrow> SystemConfig | Some c \<Rightarrow> c),
      calibration_frames = 15,
      frames_collected = 0,
      is_calibrated = False,
      previous_confidence = 0.0\<rparr>"

definition CervicalFlexionDetector_init :: "system_config option \<Rightarrow> detector" where
  "CervicalFlexionDetector_init cfg =
     CervicalFlexionDetector (BaseDetector_init CERVICAL_FLEXION cfg) None [] 0.85"

definition CervicalExtensionDetector_init :: "system_config option \<Rightarrow> detector" where
  "CervicalExtensionDetector_init cfg =
     CervicalExtensionDetector (BaseDetector_init CERVICAL_EXTENSION cfg) None [] 1.15"

definition LateralNeckTiltDetector_init :: "system_config option \<Rightarrow> detector" where
  "LateralNeckTiltDetector_init cfg =
     LateralNeckTiltDetector (BaseDetector_init LATERAL_NECK_TILT cfg) None None [] [] 0.15"

definition NeckRotationDetector_init :: "system_config option \<Rightarrow> detector" where
  "NeckRotationDetector_init cfg =
     NeckRotationDetector (BaseDetector_init NECK_ROTATION cfg) None None [] [] 1.5"

definition ChinTuckDetector_init :: "system_config option \<Rightarrow> detector" where
  "ChinTuckDetector_init cfg =
     ChinTuckDetector (BaseDetector_init CHIN_TUCK cfg) None None [] [] 0.8"

text \<open>The detector class that the coordinator instantiates for an exercise type.\<close>

fun new_detector :: "exercise_type \<Rightarrow> system_config option \<Rightarrow> detector" where
  "new_detector CERVICAL_FLEXION cfg = CervicalFlexionDetector_init cfg"
| "new_detector CERVICAL_EXTENSION cfg = CervicalExtensionDetector_init cfg"
| "new_detector LATERAL_NECK_TILT cfg = LateralNeckTiltDetector_init cfg"
| "new_detector NECK_ROTATION cfg = NeckRotationDetector_init cfg"
| "new_detector CHIN_TUCK cfg = ChinTuckDetector_init cfg"

subsection \<open>The methods of the subclasses\<close>

definition midpoint :: "point \<Rightarrow> point \<Rightarrow> point" where
  "midpoint a b = ((fst a + fst b) / 2, (snd a + snd b) / 2)"

definition shoulder_distance :: "landmark_points \<Rightarrow> real" where
  "shoulder_distance l =
     calculate_distance (nose l) (midpoint (left_shoulder l) (right_shoulder l))"

fun collect_baseline_data :: "landmark_points \<Rightarrow> detector \<Rightarrow> detector" where
  "collect_baseline_data l (CervicalFlexionDetector b bd cd th) =
     CervicalFlexionDetector b bd (cd @ [shoulder_distance l]) th"
| "collect_baseline_data l (CervicalExtensionDetector b bd cd th) =
     CervicalExtensionDetector b bd (cd @ [shoulder_distance l]) th"
| "collect_baseline_data l (LateralNeckTiltDetector b bl br cl cr th) =
     (let left_dist = calculate_distance (nose l) (left_ear l);
          right_dist = calculate_distance (nose l) (right_ear l)
      in LateralNeckTiltDetector b bl br (cl @ [left_dist]) (cr @ [right_dist]) th)"
| "collect_baseline_data l (NeckRotationDetector b bl br cl cr th) =
     (let left_vis = \<bar>fst (nose l) - fst (left_ear l)\<bar>;
          right_vis = \<bar>fst (nose l) - fst (right_ear l)\<bar>
      in NeckRotationDetector b bl br (cl @ [left_vis]) (cr @ [right_vis]) th)"
| "collect_baseline_data l (ChinTuckDetector b bo bp co cp th) =
     (let mid_ear = midpoint (left_ear l) (right_ear l);
          horizontal_offset = \<bar>fst (nose l) - fst mid_ear\<bar>;
          vertical_depth = \<bar>snd (nose l) - snd mid_ear\<bar>
      in ChinTuckDetector b bo bp (co @ [horizontal_offset]) (cp @ [vertical_depth]) th)"

fun finalize_calibration :: "detector \<Rightarrow> detector" where
  "finalize_calibration (CervicalFlexionDetector b bd cd th) =
     (if cd \<noteq> [] then CervicalFlexionDetector b (Some (np_median cd)) cd th
      else CervicalFlexionDetector b bd cd th)"
| "finalize_calibration (CervicalExtensionDetector b bd cd th) =
     (if cd \<noteq> [] then CervicalExtensionDetector b (Some (np_median cd)) cd th
      else CervicalExtensionDetector b bd cd th)"
| "finalize_calibration (LateralNeckTiltDetector b bl br cl cr th) =
     (if cl \<noteq> [] \<and> cr \<noteq> []
      then LateralNeckTiltDetector b (Some (np_median cl)) (Some (np_median cr)) cl cr th
      else LateralNeckTiltDetector b bl br cl cr th)"
| "finalize_calibration (NeckRotationDetector b bl br cl cr th) =
     (if cl \<noteq> [] \<and> cr \<noteq> []
      then NeckRotationDetector b (Some (np_median cl)) (Some (np_median cr)) cl cr th
      else NeckRotationDetector b bl br cl cr th)"
| "finalize_calibration (ChinTuckDetector b bo bp co cp th) =
     (if co \<noteq> [] \<and> cp \<noteq> []
      then ChinTuckDetector b (Some (np_median co)) (Some (np_median cp)) co cp th
      else ChinTuckDetector b bo bp co cp th)"

text \<open>\<open>max(0.0, min(1.0, x))\<close>, as every confidence formula of the source is wrapped.\<close>

definition clamp01 :: "real \<Rightarrow> real" where
  "clamp01 x = max 0.0 (min 1.0 x)"

text \<open>
  \<open>_detect_exercise\<close> returns the triple (detected, confidence, metrics), or raises what
  \<open>calculate_ratio\<close> raises. The second ratio is computed only when the first one did not
  raise.
\<close>

fun detect_exercise :: "landmark_points \<Rightarrow> detector \<Rightarrow> exn + (bool \<times> real \<times> metrics_dict)" where
  "detect_exercise l (CervicalFlexionDetector b bd cd th) =
     (let current_distance = shoulder_distance l
      in case calculate_ratio current_distance bd of
           Inl e \<Rightarrow> Inl e
         | Inr distance_ratio \<Rightarrow>
             (let detected = distance_ratio < th;
                  confidence = (if detected then clamp01 ((th - distance_ratio) / 0.15) else 0.0)
              in Inr (detected, confidence,
                      [(''distance_ratio'', MFloat distance_ratio), (''threshold'', MFloat th)])))"
| "detect_exercise l (CervicalExtensionDetector b bd cd th) =
     (let current_distance = shoulder_distance l
      in case calculate_ratio current_distance bd of
           Inl e \<Rightarrow> Inl e
         | Inr distance_ratio \<Rightarrow>
             (let detected = distance_ratio > th;
                  confidence = (if detected then clamp01 ((distance_ratio - th) / 0.15) else 0.0)
              in Inr (detected, confidence,
                      [(''distance_ratio'', MFloat distance_ratio), (''threshold'', MFloat th)])))"
| "detect_exercise l (LateralNeckTiltDetector b bl br cl cr th) =
     (let left_dist = calculate_distance (nose l) (left_ear l);
          right_dist = calculate_distance (nose l) (right_ear l)
      in case calculate_ratio left_dist bl of
           Inl e \<Rightarrow> Inl e
         | Inr left_ratio \<Rightarrow>
            (case calculate_ratio right_dist br of
               Inl e \<Rightarrow> Inl e
             | Inr right_ratio \<Rightarrow>
                 (let ratio_diff = \<bar>left_ratio - right_ratio\<bar>;
                      detected = ratio_diff > th;
                      confidence = (if detected then clamp01 (ratio_diff / 0.3) else 0.0);
                      direction = (if left_ratio < right_ratio then ''LEFT'' else ''RIGHT'')
                  in Inr (detected, confidence,
                          [(''ratio_diff'', MFloat ratio_diff), (''direction'', MStr direction),
                           (''threshold'', MFloat th)]))))"
| "detect_exercise l (NeckRotationDetector b bl br cl cr th) =
     (let left_vis = \<bar>fst (nose l) - fst (left_ear l)\<bar>;
          right_vis = \<bar>fst (nose l) - fst (right_ear l)\<bar>
      in case calculate_ratio left_vis bl of
           Inl e \<Rightarrow> Inl e
         | Inr left_ratio \<Rightarrow>
            (case calculate_ratio right_vis br of
               Inl e \<Rightarrow> Inl e
             | Inr right_ratio \<Rightarrow>
                 (let max_ratio = max left_ratio right_ratio;
                      detected = max_ratio > th;
                      confidence = (if detected then clamp01 ((max_ratio - th) / 1.0) else 0.0);
                      direction = (if left_ratio > right_ratio then ''RIGHT'' else ''LEFT'')
                  in Inr (detected, confidence,
                          [(''max_ratio'', MFloat max_ratio), (''direction'', MStr direction),
                           (''threshold'', MFloat th)]))))"
| "detect_exercise l (ChinTuckDetector b bo bp co cp th) =
     (let mid_ear = midpoint (left_ear l) (right_ear l);
          horizontal_offset = \<bar>fst (nose l) - fst mid_ear\<bar>;
          vertical_depth = \<bar>snd (nose l) - snd mid_ear\<bar>
      in case calculate_ratio horizontal_offset bo of
           Inl e \<Rightarrow> Inl e
         | Inr offset_ratio \<Rightarrow>
            (case calculate_ratio vertical_depth bp of
               Inl e \<Rightarrow> Inl e
             | Inr depth_ratio \<Rightarrow>
                 (let detected = (offset_ratio < th \<and> depth_ratio > 1.05);
                      confidence = (if detected
                                    then clamp01 ((th - offset_ratio) + (depth_ratio - 1.05))
                                    else 0.0)
                  in Inr (detected, confidence,
                          [(''offset_ratio'', MFloat offset_ratio),
                           (''depth_ratio'', MFloat depth_ratio), (''threshold'', MFloat th)]))))"

text \<open>
  A dictionary lookup \<open>metrics[key]\<close> raises \<open>KeyError\<close> on a missing key, and the format
  \<open>:.2f\<close> raises \<open>ValueError\<close> on a string.
\<close>

definition metric_lookup :: "metrics_dict \<Rightarrow> string \<Rightarrow> exn + metric_value" where
  "metric_lookup m k = (case map_of m k of None \<Rightarrow> Inl (KeyError k) | Some v \<Rightarrow> Inr v)"

definition fmt_2f :: "metric_value \<Rightarrow> exn + msg_part" where
  "fmt_2f v = (case v of MFloat x \<Rightarrow> Inr (Fmt2f x)
               | MStr s \<Rightarrow> Inl (ValueError ''Unknown format code f for object of type str''))"

fun generate_status_message ::
  "detector \<Rightarrow> bool \<Rightarrow> real \<Rightarrow> metrics_dict \<Rightarrow> exn + message" where
  "generate_status_message (CervicalFlexionDetector b bd cd th) det conf m =
     (case metric_lookup m ''distance_ratio'' of
        Inl e \<Rightarrow> Inl e
      | Inr ratio \<Rightarrow>
          (case fmt_2f ratio of
             Inl e \<Rightarrow> Inl e
           | Inr r \<Rightarrow>
               if det then Inr [Lit ''FLEXION DETECTED! Keep lowering chin (ratio: '', r, Lit '')'']
               else Inr [Lit ''Lower your chin more towards chest (ratio: '', r, Lit '')'']))"
| "generate_status_message (CervicalExtensionDetector b bd cd th) det conf m =
     (case metric_lookup m ''distance_ratio'' of
        Inl e \<Rightarrow> Inl e
      | Inr ratio \<Rightarrow>
          (case fmt_2f ratio of
             Inl e \<Rightarrow> Inl e
           | Inr r \<Rightarrow>
               if det
               then Inr [Lit ''EXTENSION DETECTED! Keep tilting head back (ratio: '', r, Lit '')'']
               else Inr [Lit ''Tilt head back more to look upward (ratio: '', r, Lit '')'']))"
| "generate_status_message (LateralNeckTiltDetector b bl br cl cr th) det conf m =
     (case metric_lookup m ''ratio_diff'' of
        Inl e \<Rightarrow> Inl e
      | Inr diff \<Rightarrow>
         (case metric_lookup m ''direction'' of
            Inl e \<Rightarrow> Inl e
          | Inr direction \<Rightarrow>
             (case fmt_2f diff of
                Inl e \<Rightarrow> Inl e
              | Inr r \<Rightarrow>
                  if det
                  then Inr [FmtVal direction, Lit '' TILT DETECTED! (difference: '', r, Lit '')'']
                  else Inr [Lit ''Tilt head more to the side (difference: '', r, Lit '')''])))"
| "generate_status_message (NeckRotationDetector b bl br cl cr th) det conf m =
     (case metric_lookup m ''max_ratio'' of
        Inl e \<Rightarrow> Inl e
      | Inr ratio \<Rightarrow>
         (case metric_lookup m ''direction'' of
            Inl e \<Rightarrow> Inl e
          | Inr direction \<Rightarrow>
             (case fmt_2f ratio of
                Inl e \<Rightarrow> Inl e
              | Inr r \<Rightarrow>
                  if det
                  then Inr [FmtVal direction, Lit '' ROTATION DETECTED! (ratio: '', r, Lit '')'']
                  else Inr [Lit ''Turn head more to the side (ratio: '', r, Lit '')''])))"
| "generate_status_message (ChinTuckDetector b bo bp co cp th) det conf m =
     (case metric_lookup m ''offset_ratio'' of
        Inl e \<Rightarrow> Inl e
      | Inr offset \<Rightarrow>
         (case metric_lookup m ''depth_ratio'' of
            Inl e \<Rightarrow> Inl e
          | Inr depth \<Rightarrow>
              if det
              then (case fmt_2f offset of
                      Inl e \<Rightarrow> Inl e
                    | Inr ro \<Rightarrow>
                       (case fmt_2f depth of
                          Inl e \<Rightarrow> Inl e
                        | Inr rd \<Rightarrow>
                            Inr [Lit ''CHIN TUCK DETECTED! (offset: '', ro, Lit '', depth: '', rd,
                                 Lit '')'']))
              else (case fmt_2f offset of
                      Inl e \<Rightarrow> Inl e
                    | Inr ro \<Rightarrow> Inr [Lit ''Pull chin back more (offset: '', ro, Lit '')''])))"

subsection \<open>The shared state machine (class BaseDetector)\<close>

text \<open>
  A method that assigns to \<open>self\<close> returns the detector's new state next to its result.
  The division that computes \<open>progress\<close> is reached only when
  \<open>frames_collected < calibration_frames\<close>, so its divisor is positive there.
\<close>

definition handle_calibration :: "landmark_points \<Rightarrow> detector \<Rightarrow> exercise_result \<times> detector" where
  "handle_calibration l d =
     (let d1 = update_base (\<lambda>b. b\<lparr>frames_collected := frames_collected b + 1\<rparr>) d;
          d2 = collect_baseline_data l d1
      in if frames_collected (base d2) \<ge> calibration_frames (base d2)
         then (let d3 = finalize_calibration d2;
                   d4 = update_base (\<lambda>b. b\<lparr>is_calibrated := True\<rparr>) d3
               in (ExerciseResult (exercise_type (base d4)) False 0.0 READY
                     [Lit ''Calibration complete! Start exercising now.''] None, d4))
         else (let progress = (real (frames_collected (base d2))
                                / real (calibration_frames (base d2))) * 100
               in (ExerciseResult (exercise_type (base d2)) False 0.0 CALIBRATING
                     [Lit ''Calibrating... '', Fmt0f progress, Lit ''% ('',
                      FmtInt (frames_collected (base d2)), Lit ''/'',
                      FmtInt (calibration_frames (base d2)), Lit '')''] None, d2)))"

text \<open>
  The body of the \<open>try\<close> block of \<open>detect\<close>. An exception raised by
  \<open>_detect_exercise\<close> leaves the state as it was; one raised by
  \<open>_generate_status_message\<close> comes after the assignment to \<open>previous_confidence\<close>.
\<close>

definition perform_detection :: "landmark_points \<Rightarrow> detector \<Rightarrow> exercise_result \<times> detector" where
  "perform_detection l d =
     (case detect_exercise l d of
        Inl e \<Rightarrow>
          (ExerciseResult (exercise_type (base d)) False 0.0 ERROR
             [Lit ''Detection error: '', Lit (str_exn e)] None, d)
      | Inr (det, conf, m) \<Rightarrow>
          (let smoothed_confidence = smooth_value_default conf (previous_confidence (base d));
               d' = update_base (\<lambda>b. b\<lparr>previous_confidence := smoothed_confidence\<rparr>) d
           in case generate_status_message d' det smoothed_confidence m of
                Inl e \<Rightarrow>
                  (ExerciseResult (exercise_type (base d')) False 0.0 ERROR
                     [Lit ''Detection error: '', Lit (str_exn e)] None, d')
              | Inr msg \<Rightarrow>
                  (ExerciseResult (exercise_type (base d')) det smoothed_confidence
                     (if det then DETECTED else NOT_DETECTED) msg (Some m), d')))"

definition detect :: "landmark_points option \<Rightarrow> detector \<Rightarrow> exercise_result \<times> detector" where
  "detect landmarks d =
     (case landmarks of
        None \<Rightarrow>
          (ExerciseResult (exercise_type (base d)) False 0.0 ERROR
             [Lit ''No pose detected - ensure you're visible to camera''] None, d)
      | Some l \<Rightarrow>
          if \<not> is_calibrated (base d) then handle_calibration l d
          else perform_detection l d)"

definition reset :: "detector \<Rightarrow> detector" where
  "reset d =
     update_base (\<lambda>b. b\<lparr>frames_collected := 0, is_calibrated := False,
                          previous_confidence := 0.0\<rparr>) d"

subsection \<open>Sequences of calls on one detector\<close>

datatype call = Detect "landmark_points option" | Reset

fun do_call :: "call \<Rightarrow> detector \<Rightarrow> exercise_result option \<times> detector" where
  "do_call (Detect lm) d = (let (r, d') = detect lm d in (Some r, d'))"
| "do_call Reset d = (None, reset d)"

text \<open>The results of the \<open>detect\<close> calls, in order, and the detector's state afterwards.\<close>

fun run_calls :: "call list \<Rightarrow> detector \<Rightarrow> exercise_result list \<times> detector" where
  "run_calls [] d = ([], d)"
| "run_calls (c # cs) d =
     (let (r, d') = do_call c d; (rs, d'') = run_calls cs d'
      in ((case r of None \<Rightarrow> rs | Some x \<Rightarrow> x # rs), d''))"

text \<open>\<open>detect\<close> on each landmark set of a list, all of them present.\<close>

fun detect_frames :: "landmark_points list \<Rightarrow> detector \<Rightarrow> exercise_result list \<times> detector" where
  "detect_frames [] d = ([], d)"
| "detect_frames (l # ls) d =
     (let (r, d') = detect (Some l) d; (rs, d'') = detect_frames ls d'
      in (r # rs, d''))"

section \<open>The coordinator (class ExerciseDetectionSystem)\<close>

record exercise_detection_system =
  config :: system_config
  detectors :: "(exercise_type \<times> detector) list"
  total_detections :: nat
  session_start_time :: real

text \<open>
  The dictionary \<open>detectors\<close> is an association list in insertion order, which is the order
  the loops iterate in. \<open>now\<close> is the value of \<open>time.time()\<close>.
\<close>

definition ExerciseDetectionSystem_init ::
  "system_config option \<Rightarrow> real \<Rightarrow> exercise_detection_system" where
  "ExerciseDetectionSystem_init cfg now =
     (let c = (case cfg of None \<Rightarrow> SystemConfig | Some c \<Rightarrow> c)
      in \<lparr>config = c,
          detectors =
            [(CERVICAL_FLEXION, CervicalFlexionDetector_init (Some c)),
             (CERVICAL_EXTENSION, CervicalExtensionDetector_init (Some c)),
             (LATERAL_NECK_TILT, LateralNeckTiltDetector_init (Some c)),
             (NECK_ROTATION, NeckRotationDetector_init (Some c)),
             (CHIN_TUCK, ChinTuckDetector_init (Some c))],
          total_detections = 0,
          session_start_time = now\<rparr>)"

text \<open>
  The call \<open>detector.detect(landmarks)\<close> as the coordinator's loop sees it: it returns a
  result or raises, and leaves the detector in a new state. The loop is written over any
  such method, and \<open>detect_method\<close> is the one the classes of this module define, which
  returns a result on every input.
\<close>

type_synonym detect_call =
  "landmark_points option \<Rightarrow> detector \<Rightarrow> (exn + exercise_result) \<times> detector"

definition detect_method :: detect_call where
  "detect_method landmarks d = (let (r, d') = detect landmarks d in (Inr r, d'))"

fun run_detectors ::
  "detect_call \<Rightarrow> landmark_points option \<Rightarrow> (exercise_type \<times> detector) list
    \<Rightarrow> (exercise_type \<rightharpoonup> exercise_result)
    \<Rightarrow> (exercise_type \<rightharpoonup> exercise_result) \<times> (exercise_type \<times> detector) list" where
  "run_detectors dm landmarks [] results = (results, [])"
| "run_detectors dm landmarks ((t, d) # rest) results =
     (case dm landmarks d of
        (Inr result, d') \<Rightarrow>
          (let (res, ds) = run_detectors dm landmarks rest (results(t \<mapsto> result))
           in (res, (t, d') # ds))
      | (Inl e, d') \<Rightarrow>
          (let (res, ds) =
                 run_detectors dm landmarks rest
                   (results(t \<mapsto> ExerciseResult t False 0.0 ERROR
                                    [Lit ''Error: '', Lit (str_exn e)] None))
           in (res, (t, d') # ds)))"

definition detect_exercises_with ::
  "detect_call \<Rightarrow> pose_results \<Rightarrow> real \<times> real \<Rightarrow> exercise_detection_system
    \<Rightarrow> (exercise_type \<rightharpoonup> exercise_result) \<times> exercise_detection_system" where
  "detect_exercises_with dm pr frame_shape s =
     (let landmarks = extract_landmarks pr frame_shape;
          s1 = s\<lparr>total_detections := total_detections s + 1\<rparr>;
          (results, ds) = run_detectors dm landmarks (detectors s1) Map.empty
      in (results, s1\<lparr>detectors := ds\<rparr>))"

definition detect_exercises ::
  "pose_results \<Rightarrow> real \<times> real \<Rightarrow> exercise_detection_system
    \<Rightarrow> (exercise_type \<rightharpoonup> exercise_result) \<times> exercise_detection_system" where
  "detect_exercises = detect_exercises_with detect_method"

text \<open>The second definition of \<open>reset_baselines\<close> in the class body is the one in force.\<close>

definition reset_baselines :: "real \<Rightarrow> exercise_detection_system \<Rightarrow> exercise_detection_system" where
  "reset_baselines now s =
     s\<lparr>detectors := map (\<lambda>(t, d). (t, reset d)) (detectors s),
       total_detections := 0,
       session_start_time := now\<rparr>"

subsection \<open>Attribute lookup\<close>

text \<open>
  \<open>is_fully_calibrated\<close> reads \<open>detector.calibration.is_complete\<close>. Reading an attribute
  looks the name up among the attributes the object has: those its \<open>__init__\<close> methods
  assigned and the methods of its classes. A name that is not there raises
  \<open>AttributeError\<close>.
\<close>

datatype pyval =
  PyBool bool | PyInt nat | PyFloat real | PyNone | PyFloatList "real list"
| PyExerciseType exercise_type | PyConfig system_config | PyMethod string

definition py_optional_float :: "real option \<Rightarrow> pyval" where
  "py_optional_float x = (case x of None \<Rightarrow> PyNone | Some v \<Rightarrow> PyFloat v)"

definition base_attributes :: "base_detector \<Rightarrow> (string \<times> pyval) list" where
  "base_attributes b =
     [(''exercise_type'', PyExerciseType (exercise_type b)),
      (''config'', PyConfig (base_detector.config b)),
      (''calibration_frames'', PyInt (calibration_frames b)),
      (''frames_collected'', PyInt (frames_collected b)),
      (''is_calibrated'', PyBool (is_calibrated b)),
      (''previous_confidence'', PyFloat (previous_confidence b))]"

definition method_attributes :: "(string \<times> pyval) list" where
  "method_attributes =
     map (\<lambda>n. (n, PyMethod n))
       [''__init__'', ''detect'', ''_handle_calibration'', ''_collect_baseline_data'',
        ''_finalize_calibration'', ''_detect_exercise'', ''_generate_status_message'', ''reset'']"

fun attributes :: "detector \<Rightarrow> (string \<times> pyval) list" where
  "attributes (CervicalFlexionDetector b bd cd th) =
     base_attributes b @
     [(''baseline_distance'', py_optional_float bd), (''calibration_distances'', PyFloatList cd),
      (''threshold'', PyFloat th)] @ method_attributes"
| "attributes (CervicalExtensionDetector b bd cd th) =
     base_attributes b @
     [(''baseline_distance'', py_optional_float bd), (''calibration_distances'', PyFloatList cd),
      (''threshold'', PyFloat th)] @ method_attributes"
| "attributes (LateralNeckTiltDetector b bl br cl cr th) =
     base_attributes b @
     [(''baseline_left'', py_optional_float bl), (''baseline_right'', py_optional_float br),
      (''calibration_left'', PyFloatList cl), (''calibration_right'', PyFloatList cr),
      (''threshold'', PyFloat th)] @ method_attributes"
| "attributes (NeckRotationDetector b bl br cl cr th) =
     base_attributes b @
     [(''baseline_left'', py_optional_float bl), (''baseline_right'', py_optional_float br),
      (''calibration_left'', PyFloatList cl), (''calibration_right'', PyFloatList cr),
      (''threshold'', PyFloat th)] @ method_attributes"
| "attributes (ChinTuckDetector b bo bp co cp th) =
     base_attributes b @
     [(''baseline_offset'', py_optional_float bo), (''baseline_depth'', py_optional_float bp),
      (''calibration_offsets'', PyFloatList co), (''calibration_depths'', PyFloatList cp),
      (''threshold'', PyFloat th)] @ method_attributes"

definition getattr :: "detector \<Rightarrow> string \<Rightarrow> exn + pyval" where
  "getattr d name =
     (case map_of (attributes d) name of
        None \<Rightarrow> Inl (AttributeError (''object has no attribute '' @ name))
      | Some v \<Rightarrow> Inr v)"

text \<open>
  None of the values an attribute of a detector can hold (a bool, an int, a float,
  \<open>None\<close>, a list, an \<open>ExerciseType\<close>, a \<open>SystemConfig\<close>, a bound method) has an attribute
  \<open>is_complete\<close>.
\<close>

definition is_complete_of :: "pyval \<Rightarrow> exn + bool" where
  "is_complete_of v = Inl (AttributeError ''object has no attribute is_complete'')"

text \<open>
  \<open>all(...)\<close> over the generator: the detectors are visited in order, the first false
  value ends the iteration, and an exception raised for one detector ends the call.
\<close>

fun all_calibration_complete :: "detector list \<Rightarrow> exn + bool" where
  "all_calibration_complete [] = Inr True"
| "all_calibration_complete (d # ds) =
     (case getattr d ''calibration'' of
        Inl e \<Rightarrow> Inl e
      | Inr c \<Rightarrow>
          (case is_complete_of c of
             Inl e \<Rightarrow> Inl e
           | Inr v \<Rightarrow> if v then all_calibration_complete ds else Inr False))"

definition is_fully_calibrated :: "exercise_detection_system \<Rightarrow> exn + bool" where
  "is_fully_calibrated s = all_calibration_complete (map snd (detectors s))"

section \<open>Definitions used to state the properties\<close>

text \<open>The baseline attribute(s) of a detector, in the order its class declares them.\<close>

fun baselines :: "detector \<Rightarrow> real option list" where
  "baselines (CervicalFlexionDetector b bd cd th) = [bd]"
| "baselines (CervicalExtensionDetector b bd cd th) = [bd]"
| "baselines (LateralNeckTiltDetector b bl br cl cr th) = [bl, br]"
| "baselines (NeckRotationDetector b bl br cl cr th) = [bl, br]"
| "baselines (ChinTuckDetector b bo bp co cp th) = [bo, bp]"

text \<open>
  The specification's table of baseline metrics: for each exercise, the median over the
  calibration frames of the metric(s) it names.
\<close>

fun spec_baselines :: "exercise_type \<Rightarrow> landmark_points list \<Rightarrow> real option list" where
  "spec_baselines CERVICAL_FLEXION ls =
     [Some (np_median (map (\<lambda>l. calculate_distance (nose l)
                                   (midpoint (left_shoulder l) (right_shoulder l))) ls))]"
| "spec_baselines CERVICAL_EXTENSION ls =
     [Some (np_median (map (\<lambda>l. calculate_distance (nose l)
                                   (midpoint (left_shoulder l) (right_shoulder l))) ls))]"
| "spec_baselines LATERAL_NECK_TILT ls =
     [Some (np_median (map (\<lambda>l. calculate_distance (nose l) (left_ear l)) ls)),
      Some (np_median (map (\<lambda>l. calculate_distance (nose l) (right_ear l)) ls))]"
| "spec_baselines NECK_ROTATION ls =
     [Some (np_median (map (\<lambda>l. \<bar>fst (nose l) - fst (left_ear l)\<bar>) ls)),
      Some (np_median (map (\<lambda>l. \<bar>fst (nose l) - fst (right_ear l)\<bar>) ls))]"
| "spec_baselines CHIN_TUCK ls =
     [Some (np_median (map (\<lambda>l. \<bar>fst (nose l) - fst (midpoint (left_ear l) (right_ear l))\<bar>) ls)),
      Some (np_median (map (\<lambda>l. \<bar>snd (nose l) - snd (midpoint (left_ear l) (right_ear l))\<bar>) ls))]"

subsection \<open>Concrete inputs\<close>

text \<open>
  A frame with the nose at \<open>(x, 0)\<close>, the ears at \<open>(-10, 0)\<close> and \<open>(10, 0)\<close> and the
  shoulders at \<open>(-50, y)\<close> and \<open>(50, y)\<close>: for \<open>x = 0\<close> the nose-to-mid-shoulder
  distance is \<open>|y|\<close>, and the horizontal nose-to-ear offsets are \<open>|x + 10|\<close> and
  \<open>|x - 10|\<close>.
\<close>

definition example_frame :: "real \<Rightarrow> real \<Rightarrow> landmark_points" where
  "example_frame x y =
     \<lparr>nose = (x, 0), left_ear = (-10, 0), right_ear = (10, 0),
      left_shoulder = (-50, y), right_shoulder = (50, y)\<rparr>"

text \<open>Configurations that differ from the default one in the calibration settings.\<close>

definition config_20_frames :: system_config where
  "config_20_frames = SystemConfig\<lparr>system_config.calibration_frames := 20, confidence_smoothing := 0.5\<rparr>"

definition config_0_frames :: system_config where
  "config_0_frames = SystemConfig\<lparr>system_config.calibration_frames := 0\<rparr>"

text \<open>Detectors calibrated over 15 copies of one frame.\<close>

definition calibrated_flexion :: detector where
  "calibrated_flexion =
     snd (detect_frames (replicate 15 (example_frame 0 100)) (CervicalFlexionDetector_init None))"

definition calibrated_rotation :: detector where
  "calibrated_rotation =
     snd (detect_frames (replicate 15 (example_frame 0 100)) (NeckRotationDetector_init None))"

text \<open>
  A \<open>detect\<close> method that raises for the chin-tuck detector and is the module's own
  method for the other detectors.
\<close>

definition chin_tuck_raises :: detect_call where
  "chin_tuck_raises landmarks d =
     (if exercise_type (base d) = CHIN_TUCK then (Inl (RuntimeError ''chin tuck failed''), d)
      else detect_method landmarks d)"

section \<open>Properties of the detectors\<close>

lemma base_update_base [simp]: "base (update_base f d) = f (base d)"
  by (cases d) simp_all

lemma update_base_twice [simp]: "update_base f (update_base g d) = update_base (\<lambda>b. f (g b)) d"
  by (cases d) simp_all

lemma base_collect [simp]: "base (collect_baseline_data l d) = base d"
  by (cases d) (simp_all add: Let_def)

lemma base_finalize [simp]: "base (finalize_calibration d) = base d"
  by (cases d) simp_all

lemma collect_update_base:
  "collect_baseline_data l (update_base f d) = update_base f (collect_baseline_data l d)"
  by (cases d) (simp_all add: Let_def)

lemma finalize_update_base:
  "finalize_calibration (update_base f d) = update_base f (finalize_calibration d)"
  by (cases d) simp_all

lemma fold_collect_update_base:
  "fold (collect_baseline_data) ls (update_base f d) = update_base f (fold collect_baseline_data ls d)"
  by (induction ls arbitrary: d) (simp_all add: collect_update_base)

lemma base_fold_collect [simp]: "base (fold collect_baseline_data ls d) = base d"
  by (induction ls arbitrary: d) simp_all

lemma detect_frames_append:
  "detect_frames (xs @ ys) d =
     (fst (detect_frames xs d) @ fst (detect_frames ys (snd (detect_frames xs d))),
      snd (detect_frames ys (snd (detect_frames xs d))))"
  by (induction xs arbitrary: d) (simp_all add: split_beta Let_def)

lemma detect_frames_calibrating:
  "\<not> is_calibrated (base d) \<Longrightarrow> frames_collected (base d) + length ls < calibration_frames (base d) \<Longrightarrow>
   snd (detect_frames ls d) =
     update_base (\<lambda>b. b\<lparr>frames_collected := frames_collected b + length ls\<rparr>)
       (fold collect_baseline_data ls d)
   \<and> map status (fst (detect_frames ls d)) = replicate (length ls) CALIBRATING"
proof (induction ls arbitrary: d)
  case Nil
  show ?case by (cases d) simp_all
next
  case (Cons l ls)
  let ?d1 = "collect_baseline_data l (update_base (\<lambda>b. b\<lparr>frames_collected := frames_collected b + 1\<rparr>) d)"
  have step: "detect (Some l) d =
     (ExerciseResult (exercise_type (base ?d1)) False 0.0 CALIBRATING
                     [Lit ''Calibrating... '', Fmt0f ((real (frames_collected (base ?d1))
                                / real (calibration_frames (base ?d1))) * 100), Lit ''% ('',
                      FmtInt (frames_collected (base ?d1)), Lit ''/'',
                      FmtInt (calibration_frames (base ?d1)), Lit '')''] None, ?d1)"
    using Cons.prems by (simp add: detect_def handle_calibration_def Let_def)
  have nc: "\<not> is_calibrated (base ?d1)" using Cons.prems by simp
  have lt: "frames_collected (base ?d1) + length ls < calibration_frames (base ?d1)"
    using Cons.prems by simp
  from Cons.IH[OF nc lt] show ?case
    by (simp add: step split_beta Let_def ExerciseResult_def collect_update_base fold_collect_update_base)
qed

lemma fold_collect_flexion:
  "fold collect_baseline_data ls (CervicalFlexionDetector b bd cd th) =
     CervicalFlexionDetector b bd (cd @ map shoulder_distance ls) th"
  by (induction ls arbitrary: cd) simp_all

lemma fold_collect_extension:
  "fold collect_baseline_data ls (CervicalExtensionDetector b bd cd th) =
     CervicalExtensionDetector b bd (cd @ map shoulder_distance ls) th"
  by (induction ls arbitrary: cd) simp_all

lemma fold_collect_tilt:
  "fold collect_baseline_data ls (LateralNeckTiltDetector b bl br cl cr th) =
     LateralNeckTiltDetector b bl br
       (cl @ map (\<lambda>l. calculate_distance (nose l) (left_ear l)) ls)
       (cr @ map (\<lambda>l. calculate_distance (nose l) (right_ear l)) ls) th"
  by (induction ls arbitrary: cl cr) (simp_all add: Let_def)

lemma fold_collect_rotation:
  "fold collect_baseline_data ls (NeckRotationDetector b bl br cl cr th) =
     NeckRotationDetector b bl br
       (cl @ map (\<lambda>l. \<bar>fst (nose l) - fst (left_ear l)\<bar>) ls)
       (cr @ map (\<lambda>l. \<bar>fst (nose l) - fst (right_ear l)\<bar>) ls) th"
  by (induction ls arbitrary: cl cr) (simp_all add: Let_def)

lemma fold_collect_chin_tuck:
  "fold collect_baseline_data ls (ChinTuckDetector b bo bp co cp th) =
     ChinTuckDetector b bo bp
       (co @ map (\<lambda>l. \<bar>fst (nose l) - fst (midpoint (left_ear l) (right_ear l))\<bar>) ls)
       (cp @ map (\<lambda>l. \<bar>snd (nose l) - snd (midpoint (left_ear l) (right_ear l))\<bar>) ls) th"
  by (induction ls arbitrary: co cp) (simp_all add: Let_def)

lemma detect_last_calibration_frame:
  assumes "\<not> is_calibrated (base d)"
      and "calibration_frames (base d) \<le> frames_collected (base d) + 1"
  shows "snd (detect (Some l) d) =
           update_base (\<lambda>b. b\<lparr>frames_collected := frames_collected b + 1, is_calibrated := True\<rparr>)
             (finalize_calibration (collect_baseline_data l d))"
    and "status (fst (detect (Some l) d)) = READY"
  using assms
  by (simp_all add: detect_def handle_calibration_def Let_def ExerciseResult_def
        collect_update_base finalize_update_base)

lemma detect_frames_calibration:
  assumes nc: "\<not> is_calibrated (base d)"
      and ne: "ls \<noteq> []"
      and len: "frames_collected (base d) + length ls = calibration_frames (base d)"
  shows "snd (detect_frames ls d) =
           update_base (\<lambda>b. b\<lparr>frames_collected := frames_collected b + length ls,
                                 is_calibrated := True\<rparr>)
             (finalize_calibration (fold collect_baseline_data ls d))"
    and "map status (fst (detect_frames ls d)) = replicate (length ls - 1) CALIBRATING @ [READY]"
proof -
  obtain xs x where ls: "ls = xs @ [x]" using ne by (metis rev_exhaust)
  have lt: "frames_collected (base d) + length xs < calibration_frames (base d)"
    using len ls by simp
  let ?d1 = "snd (detect_frames xs d)"
  have d1: "?d1 = update_base (\<lambda>b. b\<lparr>frames_collected := frames_collected b + length xs\<rparr>)
                    (fold collect_baseline_data xs d)"
    and st: "map status (fst (detect_frames xs d)) = replicate (length xs) CALIBRATING"
    using detect_frames_calibrating[OF nc lt] by simp_all
  have nc1: "\<not> is_calibrated (base ?d1)" using nc by (simp add: d1)
  have ge: "calibration_frames (base ?d1) \<le> frames_collected (base ?d1) + 1"
    using len ls by (simp add: d1)
  have last: "detect_frames [x] ?d1 = ([fst (detect (Some x) ?d1)], snd (detect (Some x) ?d1))"
    by (simp add: split_beta)
  show "snd (detect_frames ls d) =
           update_base (\<lambda>b. b\<lparr>frames_collected := frames_collected b + length ls,
                                 is_calibrated := True\<rparr>)
             (finalize_calibration (fold collect_baseline_data ls d))"
    unfolding ls detect_frames_append last
    by (simp add: detect_last_calibration_frame(1)[OF nc1 ge])
       (simp add: d1 collect_update_base finalize_update_base)
  show "map status (fst (detect_frames ls d)) = replicate (length ls - 1) CALIBRATING @ [READY]"
    unfolding ls detect_frames_append last
    by (simp add: st detect_last_calibration_frame(2)[OF nc1 ge])
qed

lemma new_detector_base [simp]: "base (new_detector t cfg) = BaseDetector_init t cfg"
  by (cases t)
     (simp_all add: CervicalFlexionDetector_init_def CervicalExtensionDetector_init_def
        LateralNeckTiltDetector_init_def NeckRotationDetector_init_def ChinTuckDetector_init_def)

lemma BaseDetector_init_simps [simp]:
  "exercise_type (BaseDetector_init t cfg) = t"
  "calibration_frames (BaseDetector_init t cfg) = 15"
  "frames_collected (BaseDetector_init t cfg) = 0"
  "is_calibrated (BaseDetector_init t cfg) = False"
  "previous_confidence (BaseDetector_init t cfg) = 0"
  by (simp_all add: BaseDetector_init_def)

lemma baselines_update_base [simp]: "baselines (update_base f d) = baselines d"
  by (cases d) simp_all

lemma baselines_after_calibration:
  assumes "ls \<noteq> []"
  shows "baselines (finalize_calibration (fold collect_baseline_data ls (new_detector t cfg)))
           = spec_baselines t ls"
  using assms
  by (cases t)
     (simp_all add: CervicalFlexionDetector_init_def CervicalExtensionDetector_init_def
        LateralNeckTiltDetector_init_def NeckRotationDetector_init_def ChinTuckDetector_init_def
        fold_collect_flexion fold_collect_extension fold_collect_tilt fold_collect_rotation
        fold_collect_chin_tuck shoulder_distance_def[abs_def])

lemma np_median_constant:
  assumes "xs \<noteq> []" and "\<forall>x \<in> set xs. x = c"
  shows "np_median xs = c"
proof -
  let ?s = "sort xs"
  have len: "0 < length ?s" using assms(1) by simp
  have all: "?s ! i = c" if "i < length ?s" for i
  proof -
    have "?s ! i \<in> set ?s" using that by (rule nth_mem)
    then show ?thesis using assms(2) by simp
  qed
  have a: "?s ! (length ?s div 2) = c" using len by (intro all) simp
  have b: "?s ! (length ?s div 2 - 1) = c" using len by (intro all) arith
  show ?thesis unfolding np_median_def Let_def using a b by simp
qed

lemma detect_none:
  "detect None d = (ExerciseResult (exercise_type (base d)) False 0.0 ERROR
             [Lit ''No pose detected - ensure you're visible to camera''] None, d)"
  by (simp add: detect_def)

lemma detect_exercise_confidence:
  "detect_exercise l d = Inr (det, conf, m) \<Longrightarrow> 0 \<le> conf \<and> conf \<le> 1"
  by (cases d) (auto simp: clamp01_def Let_def split: sum.splits if_splits)

lemma smooth_value_default_bounds:
  "0 \<le> c \<Longrightarrow> c \<le> 1 \<Longrightarrow> 0 \<le> p \<Longrightarrow> p \<le> 1 \<Longrightarrow>
   0 \<le> smooth_value_default c p \<and> smooth_value_default c p \<le> 1"
  by (simp add: smooth_value_default_def smooth_value_def)

lemma handle_calibration_confidence:
  "confidence (fst (handle_calibration l d)) = 0
   \<and> previous_confidence (base (snd (handle_calibration l d))) = previous_confidence (base d)"
  by (simp add: handle_calibration_def Let_def ExerciseResult_def)

lemma perform_detection_confidence:
  assumes "0 \<le> previous_confidence (base d)" "previous_confidence (base d) \<le> 1"
  shows "0 \<le> confidence (fst (perform_detection l d)) \<and> confidence (fst (perform_detection l d)) \<le> 1
       \<and> 0 \<le> previous_confidence (base (snd (perform_detection l d)))
       \<and> previous_confidence (base (snd (perform_detection l d))) \<le> 1"
proof (cases "detect_exercise l d")
  case (Inl e)
  then show ?thesis using assms by (simp add: perform_detection_def ExerciseResult_def)
next
  case (Inr x)
  obtain det conf m where x: "x = (det, conf, m)" by (cases x) auto
  from detect_exercise_confidence[of l d det conf m] Inr x
  have c: "0 \<le> conf" "conf \<le> 1" by simp_all
  from smooth_value_default_bounds[OF c assms]
  show ?thesis using Inr x
    by (simp add: perform_detection_def Let_def ExerciseResult_def split: sum.splits)
qed

lemma detect_confidence:
  assumes "0 \<le> previous_confidence (base d)" "previous_confidence (base d) \<le> 1"
  shows "0 \<le> confidence (fst (detect lm d)) \<and> confidence (fst (detect lm d)) \<le> 1
       \<and> 0 \<le> previous_confidence (base (snd (detect lm d)))
       \<and> previous_confidence (base (snd (detect lm d))) \<le> 1"
proof (cases lm)
  case None
  then show ?thesis using assms by (simp add: detect_def ExerciseResult_def)
next
  case (Some l)
  show ?thesis
  proof (cases "is_calibrated (base d)")
    case True
    then show ?thesis using Some perform_detection_confidence[OF assms, of l]
      by (simp add: detect_def)
  next
    case False
    then show ?thesis using Some handle_calibration_confidence[of l d] assms
      by (simp add: detect_def)
  qed
qed

lemma run_calls_confidence:
  "0 \<le> previous_confidence (base d) \<Longrightarrow> previous_confidence (base d) \<le> 1 \<Longrightarrow>
   (\<forall>r \<in> set (fst (run_calls cs d)). 0 \<le> confidence r \<and> confidence r \<le> 1)
   \<and> 0 \<le> previous_confidence (base (snd (run_calls cs d)))
   \<and> previous_confidence (base (snd (run_calls cs d))) \<le> 1"
proof (induction cs arbitrary: d)
  case Nil
  then show ?case by simp
next
  case (Cons c cs)
  show ?case
  proof (cases c)
    case (Detect lm)
    from detect_confidence[OF Cons.prems, of lm]
    have r: "0 \<le> confidence (fst (detect lm d))" "confidence (fst (detect lm d)) \<le> 1"
      and p: "0 \<le> previous_confidence (base (snd (detect lm d)))"
             "previous_confidence (base (snd (detect lm d))) \<le> 1"
      by simp_all
    from Cons.IH[OF p] r show ?thesis using Detect
      by (simp add: split_beta Let_def)
  next
    case Reset
    have p: "0 \<le> previous_confidence (base (reset d))" "previous_confidence (base (reset d)) \<le> 1"
      by (simp_all add: reset_def)
    from Cons.IH[OF p] show ?thesis using Reset
      by (simp add: split_beta Let_def)
  qed
qed

lemma run_detectors_lookup:
  "distinct (map fst ds) \<Longrightarrow>
   fst (run_detectors dm lm ds results) t =
     (case map_of ds t of
        None \<Rightarrow> results t
      | Some d \<Rightarrow>
          (case fst (dm lm d) of
             Inr r \<Rightarrow> Some r
           | Inl e \<Rightarrow> Some (ExerciseResult t False 0.0 ERROR [Lit ''Error: '', Lit (str_exn e)] None)))"
proof (induction ds arbitrary: results)
  case Nil
  then show ?case by simp
next
  case (Cons p ds)
  obtain t0 d0 where p: "p = (t0, d0)" by (cases p) auto
  obtain x d' where dm: "dm lm d0 = (x, d')" by (cases "dm lm d0") auto
  have dist: "distinct (map fst ds)" and notin: "t0 \<notin> fst ` set ds"
    using Cons.prems p by simp_all
  have none: "map_of ds t0 = None" using notin by (simp add: map_of_eq_None_iff)
  show ?case
  proof (cases x)
    case (Inl e)
    then show ?thesis using Cons.IH[OF dist] p dm none
      by (auto simp: split_beta split: option.splits)
  next
    case (Inr r)
    then show ?thesis using Cons.IH[OF dist] p dm none
      by (auto simp: split_beta split: option.splits)
  qed
qed

lemma exercise_type_UNIV:
  "(UNIV :: exercise_type set) =
     {CERVICAL_FLEXION, CERVICAL_EXTENSION, LATERAL_NECK_TILT, NECK_ROTATION, CHIN_TUCK}"
  by (auto intro: exercise_type.exhaust)

lemma getattr_calibration:
  "getattr d ''calibration'' = Inl (AttributeError ''object has no attribute calibration'')"
  by (cases d)
     (simp_all add: getattr_def base_attributes_def method_attributes_def)

lemma shoulder_distance_example [simp]: "shoulder_distance (example_frame 0 y) = \<bar>y\<bar>"
  by (simp add: shoulder_distance_def example_frame_def calculate_distance_def midpoint_def)

lemma generate_status_message_total:
  "detect_exercise l d = Inr (det, conf, m) \<Longrightarrow>
   \<exists>msg. generate_status_message (update_base f d) det c m = Inr msg"
  by (cases d)
     (auto simp: Let_def metric_lookup_def fmt_2f_def split: sum.splits if_splits)

lemma perform_detection_result:
  assumes "detect_exercise l d = Inr (det, conf, m)"
  shows "detected (fst (perform_detection l d)) = det"
    and "confidence (fst (perform_detection l d)) = smooth_value_default conf (previous_confidence (base d))"
    and "status (fst (perform_detection l d)) = (if det then DETECTED else NOT_DETECTED)"
    and "metrics (fst (perform_detection l d)) = Some m"
    and "snd (perform_detection l d) =
           update_base (\<lambda>b. b\<lparr>previous_confidence :=
                                smooth_value_default conf (previous_confidence (base d))\<rparr>) d"
proof -
  let ?f = "\<lambda>b. b\<lparr>previous_confidence := smooth_value_default conf (previous_confidence (base d))\<rparr>"
  obtain msg where msg: "generate_status_message (update_base ?f d) det
        (smooth_value_default conf (previous_confidence (base d))) m = Inr msg"
    using generate_status_message_total[OF assms] by blast
  have pd: "perform_detection l d =
      (ExerciseResult (exercise_type (base d)) det
         (smooth_value_default conf (previous_confidence (base d)))
         (if det then DETECTED else NOT_DETECTED) msg (Some m), update_base ?f d)"
    using assms msg by (simp add: perform_detection_def Let_def)
  show "detected (fst (perform_detection l d)) = det"
    and "confidence (fst (perform_detection l d)) = smooth_value_default conf (previous_confidence (base d))"
    and "status (fst (perform_detection l d)) = (if det then DETECTED else NOT_DETECTED)"
    and "metrics (fst (perform_detection l d)) = Some m"
    and "snd (perform_detection l d) = update_base ?f d"
    by (simp_all add: pd ExerciseResult_def)
qed

lemma detect_calibrated:
  "is_calibrated (base d) \<Longrightarrow> detect (Some l) d = perform_detection l d"
  by (simp add: detect_def)

lemma np_median_replicate: "0 < n \<Longrightarrow> np_median (replicate n c) = c"
  by (rule np_median_constant) simp_all

lemma flexion_calibration_state:
  assumes "\<not> is_calibrated b" "frames_collected b = 0" "calibration_frames b = 15" "length ls = 15"
  shows "snd (detect_frames ls (CervicalFlexionDetector b bd cd th)) =
           CervicalFlexionDetector (b\<lparr>frames_collected := 15, is_calibrated := True\<rparr>)
             (Some (np_median (cd @ map shoulder_distance ls))) (cd @ map shoulder_distance ls) th"
proof -
  let ?d = "CervicalFlexionDetector b bd cd th"
  have nc: "\<not> is_calibrated (base ?d)" using assms by simp
  have ne: "ls \<noteq> []" using assms by auto
  have sum: "frames_collected (base ?d) + length ls = calibration_frames (base ?d)"
    using assms by simp
  show ?thesis using assms ne
    by (simp add: detect_frames_calibration(1)[OF nc ne sum] fold_collect_flexion)
qed

lemma rotation_calibration_state:
  assumes "\<not> is_calibrated b" "frames_collected b = 0" "calibration_frames b = 15" "length ls = 15"
  shows "snd (detect_frames ls (NeckRotationDetector b bl br cl cr th)) =
           NeckRotationDetector (b\<lparr>frames_collected := 15, is_calibrated := True\<rparr>)
             (Some (np_median (cl @ map (\<lambda>l. \<bar>fst (nose l) - fst (left_ear l)\<bar>) ls)))
             (Some (np_median (cr @ map (\<lambda>l. \<bar>fst (nose l) - fst (right_ear l)\<bar>) ls)))
             (cl @ map (\<lambda>l. \<bar>fst (nose l) - fst (left_ear l)\<bar>) ls)
             (cr @ map (\<lambda>l. \<bar>fst (nose l) - fst (right_ear l)\<bar>) ls) th"
proof -
  let ?d = "NeckRotationDetector b bl br cl cr th"
  have nc: "\<not> is_calibrated (base ?d)" using assms by simp
  have ne: "ls \<noteq> []" using assms by auto
  have sum: "frames_collected (base ?d) + length ls = calibration_frames (base ?d)"
    using assms by simp
  show ?thesis using assms ne
    by (simp add: detect_frames_calibration(1)[OF nc ne sum] fold_collect_rotation)
qed

lemma calibrated_flexion_eq:
  "calibrated_flexion =
     CervicalFlexionDetector
       ((BaseDetector_init CERVICAL_FLEXION None)\<lparr>frames_collected := 15, is_calibrated := True\<rparr>)
       (Some 100) (replicate 15 100) 0.85"
  unfolding calibrated_flexion_def CervicalFlexionDetector_init_def
  by (subst flexion_calibration_state) (simp_all add: np_median_replicate)

lemma calibrated_rotation_eq:
  "calibrated_rotation =
     NeckRotationDetector
       ((BaseDetector_init NECK_ROTATION None)\<lparr>frames_collected := 15, is_calibrated := True\<rparr>)
       (Some 10) (Some 10) (replicate 15 10) (replicate 15 10) 1.5"
  unfolding calibrated_rotation_def NeckRotationDetector_init_def
  by (subst rotation_calibration_state) (simp_all add: np_median_replicate example_frame_def)

lemma np_median_two_levels:
  "a \<le> b \<Longrightarrow> np_median (replicate 15 a @ replicate 15 b) = (a + b) / 2"
proof -
  assume ab: "a \<le> b"
  have "sorted (replicate 15 a @ replicate 15 b)"
    using ab by (simp add: sorted_append)
  then have s: "sort (replicate 15 a @ replicate 15 b) = replicate 15 a @ replicate 15 b"
    by (rule sorted_sort_id)
  show ?thesis unfolding np_median_def s Let_def
    by (simp add: nth_append)
qed

lemma example_frame_metric:
  "calculate_distance (nose (example_frame 0 y))
     (midpoint (left_shoulder (example_frame 0 y)) (right_shoulder (example_frame 0 y))) = \<bar>y\<bar>"
  using shoulder_distance_example[of y] by (simp only: shoulder_distance_def)

lemma run_calls_detect_frames:
  "run_calls (map (\<lambda>l. Detect (Some l)) ls) d = detect_frames ls d"
  by (induction ls arbitrary: d) (simp_all add: split_beta Let_def)

lemma snd_perform_detection:
  "\<exists>p. snd (perform_detection l d) = update_base (\<lambda>b. b\<lparr>previous_confidence := p\<rparr>) d"
proof (cases "detect_exercise l d")
  case (Inl e)
  have "d = update_base (\<lambda>b. b\<lparr>previous_confidence := previous_confidence (base d)\<rparr>) d"
    by (cases d) simp_all
  then show ?thesis using Inl by (auto simp: perform_detection_def)
next
  case (Inr x)
  obtain det conf m where x: "x = (det, conf, m)" by (cases x) auto
  show ?thesis using perform_detection_result(5)[of l d det conf m] Inr x by blast
qed

lemma rotation_step:
  assumes "is_calibrated b \<longrightarrow> bl \<noteq> None \<and> br \<noteq> None"
  shows "\<exists>b' bl' br' cl' cr'.
           snd (do_call c (NeckRotationDetector b bl br cl cr th))
             = NeckRotationDetector b' bl' br' cl' cr' th
           \<and> (is_calibrated b' \<longrightarrow> bl' \<noteq> None \<and> br' \<noteq> None)"
proof (cases c)
  case Reset
  then show ?thesis by (simp add: reset_def)
next
  case (Detect lm)
  show ?thesis
  proof (cases lm)
    case None
    then show ?thesis using Detect assms by (simp add: detect_def split_beta)
  next
    case (Some l)
    show ?thesis
    proof (cases "is_calibrated b")
      case True
      obtain p where "snd (perform_detection l (NeckRotationDetector b bl br cl cr th))
          = update_base (\<lambda>b. b\<lparr>previous_confidence := p\<rparr>) (NeckRotationDetector b bl br cl cr th)"
        using snd_perform_detection by blast
      then show ?thesis using Detect Some True assms
        by (simp add: detect_def split_beta)
    next
      case False
      then show ?thesis using Detect Some
        by (simp add: detect_def handle_calibration_def Let_def split_beta)
    qed
  qed
qed

lemma rotation_invariant:
  assumes "is_calibrated b \<longrightarrow> bl \<noteq> None \<and> br \<noteq> None"
  shows "\<exists>b' bl' br' cl' cr'.
           snd (run_calls cs (NeckRotationDetector b bl br cl cr th))
             = NeckRotationDetector b' bl' br' cl' cr' th
           \<and> (is_calibrated b' \<longrightarrow> bl' \<noteq> None \<and> br' \<noteq> None)"
  using assms
proof (induction cs arbitrary: b bl br cl cr)
  case Nil
  then show ?case by simp
next
  case (Cons c cs)
  from rotation_step[OF Cons.prems, of c cl cr th]
  obtain b' bl' br' cl' cr' where
    s: "snd (do_call c (NeckRotationDetector b bl br cl cr th)) = NeckRotationDetector b' bl' br' cl' cr' th"
    and i: "is_calibrated b' \<longrightarrow> bl' \<noteq> None \<and> br' \<noteq> None"
    by blast
  from Cons.IH[OF i, of cl' cr'] show ?case
    by (simp add: split_beta Let_def s)
qed

lemma calculate_ratio_Some: "\<exists>r. calculate_ratio x (Some b) = Inr r"
  by (simp add: calculate_ratio_def)

lemma rotation_detect_exercise:
  assumes left: "calculate_ratio \<bar>fst (nose l) - fst (left_ear l)\<bar> bl = Inr left_ratio"
      and right: "calculate_ratio \<bar>fst (nose l) - fst (right_ear l)\<bar> br = Inr right_ratio"
  shows "detect_exercise l (NeckRotationDetector b bl br cl cr 1.5) =
           Inr (max left_ratio right_ratio > 1.5,
                (if max left_ratio right_ratio > 1.5
                 then max 0 (min 1 ((max left_ratio right_ratio - 1.5) / 1))
                 else 0),
                [(''max_ratio'', MFloat (max left_ratio right_ratio)),
                 (''direction'', MStr (if left_ratio > right_ratio then ''RIGHT'' else ''LEFT'')),
                 (''threshold'', MFloat 1.5)])"
  using left right by (simp add: Let_def clamp01_def)

section \<open>The claims\<close>

subsection \<open>C1: is_fully_calibrated\<close>

text \<open>
  Claim C1 says that \<open>is_fully_calibrated\<close> returns, in every state, whether all five
  detectors are calibrated. The method reads the attribute \<open>calibration\<close> of the first
  detector, which no detector has (the flag is the attribute \<open>is_calibrated\<close>): on the
  coordinator as constructed the call raises \<open>AttributeError\<close> instead of returning a
  boolean.
\<close>

theorem is_fully_calibrated_raises:
  "is_fully_calibrated (ExerciseDetectionSystem_init cfg now) =
     Inl (AttributeError ''object has no attribute calibration'')"
  by (simp add: is_fully_calibrated_def ExerciseDetectionSystem_init_def Let_def
        getattr_calibration)

subsection \<open>C2: reset\<close>

text \<open>
  Claim C2 says that \<open>reset\<close> empties the calibration sample accumulators, so that the
  next calibration computes its baseline from the new samples only. \<open>reset\<close> assigns
  \<open>frames_collected\<close>, \<open>is_calibrated\<close> and \<open>previous_confidence\<close> and nothing else.
  A flexion detector calibrated at distance 100 and then reset still holds its 15 samples, and
  a second calibration over 15 frames at distance 200, whose median is 200, ends with the
  baseline 150, the median of all 30 samples.
\<close>

theorem reset_keeps_calibration_samples:
  "calibration_distances (reset calibrated_flexion) = replicate 15 100
   \<and> frames_collected (base (reset calibrated_flexion)) = 0
   \<and> \<not> is_calibrated (base (reset calibrated_flexion))
   \<and> np_median (map shoulder_distance (replicate 15 (example_frame 0 200))) = 200
   \<and> baseline_distance
        (snd (detect_frames (replicate 15 (example_frame 0 200)) (reset calibrated_flexion)))
       = Some 150"
proof -
  have r: "reset calibrated_flexion =
     CervicalFlexionDetector
       ((BaseDetector_init CERVICAL_FLEXION None)\<lparr>frames_collected := 0, is_calibrated := False,
           previous_confidence := 0\<rparr>)
       (Some 100) (replicate 15 100) 0.85"
    by (simp add: calibrated_flexion_eq reset_def)
  have m: "np_median (map shoulder_distance (replicate 15 (example_frame 0 200))) = 200"
    by (simp add: np_median_replicate)
  have b: "baseline_distance
        (snd (detect_frames (replicate 15 (example_frame 0 200)) (reset calibrated_flexion)))
       = Some 150"
    unfolding r
    by (subst flexion_calibration_state) (simp_all add: np_median_two_levels)
  show ?thesis using m b by (simp add: r)
qed

subsection \<open>C3: neck rotation\<close>

text \<open>
  Claim C3 as stated, on the direction: the reported direction names the side whose ratio is
  larger. On a detector calibrated with both offsets at 10 and a frame with offsets 20 (left)
  and 0 (right), the left ratio 2 is the larger one and the reported direction is
  \<open>RIGHT\<close>.
\<close>

theorem rotation_direction_counterexample:
  "calculate_ratio \<bar>fst (nose (example_frame 10 100)) - fst (left_ear (example_frame 10 100))\<bar>
     (baseline_left calibrated_rotation) = Inr 2
   \<and> calculate_ratio \<bar>fst (nose (example_frame 10 100)) - fst (right_ear (example_frame 10 100))\<bar>
       (baseline_right calibrated_rotation) = Inr 0
   \<and> metrics (fst (detect (Some (example_frame 10 100)) calibrated_rotation)) =
       Some [(''max_ratio'', MFloat 2), (''direction'', MStr ''RIGHT''), (''threshold'', MFloat 1.5)]"
proof -
  let ?l = "example_frame 10 100"
  have c: "is_calibrated (base calibrated_rotation)" by (simp add: calibrated_rotation_eq)
  have de: "detect_exercise ?l calibrated_rotation =
     Inr (True, 0.5, [(''max_ratio'', MFloat 2), (''direction'', MStr ''RIGHT''), (''threshold'', MFloat 1.5)])"
    by (simp add: calibrated_rotation_eq example_frame_def calculate_ratio_def clamp01_def Let_def)
  have m: "metrics (fst (detect (Some ?l) calibrated_rotation)) =
       Some [(''max_ratio'', MFloat 2), (''direction'', MStr ''RIGHT''), (''threshold'', MFloat 1.5)]"
    unfolding detect_calibrated[OF c] by (rule perform_detection_result(4)[OF de])
  show ?thesis using m
    by (simp add: calibrated_rotation_eq example_frame_def calculate_ratio_def)
qed

text \<open>
  Claim C3 as amended. For every calibrated neck-rotation detector (any state reached from
  construction by calls of \<open>detect\<close> and \<open>reset\<close> in which \<open>is_calibrated\<close> holds) and
  every present landmark set, both ratios are defined, the result's detected flag is true
  exactly when the larger ratio exceeds 1.5, the raw confidence is
  \<open>max(0, min(1, (max_ratio - 1.5) / 1.0))\<close> when detected and 0 otherwise, and the direction
  is \<open>RIGHT\<close> when the left ratio is strictly larger than the right one and \<open>LEFT\<close>
  otherwise.
\<close>

theorem rotation_detection:
  assumes reach: "d = snd (run_calls cs (NeckRotationDetector_init cfg))"
      and cal: "is_calibrated (base d)"
  shows "\<exists>left_ratio right_ratio.
           calculate_ratio \<bar>fst (nose l) - fst (left_ear l)\<bar> (baseline_left d) = Inr left_ratio
         \<and> calculate_ratio \<bar>fst (nose l) - fst (right_ear l)\<bar> (baseline_right d) = Inr right_ratio
         \<and> detected (fst (detect (Some l) d)) = (max left_ratio right_ratio > 1.5)
         \<and> detect_exercise l d =
             Inr (max left_ratio right_ratio > 1.5,
                  (if max left_ratio right_ratio > 1.5
                   then max 0 (min 1 ((max left_ratio right_ratio - 1.5) / 1))
                   else 0),
                  [(''max_ratio'', MFloat (max left_ratio right_ratio)),
                   (''direction'', MStr (if left_ratio > right_ratio then ''RIGHT'' else ''LEFT'')),
                   (''threshold'', MFloat 1.5)])"
proof -
  have "is_calibrated (BaseDetector_init NECK_ROTATION cfg)
          \<longrightarrow> (None :: real option) \<noteq> None \<and> (None :: real option) \<noteq> None"
    by simp
  from rotation_invariant[OF this, of cs "[]" "[]" "1.5"]
  obtain b bl br cl cr where
    d: "d = NeckRotationDetector b bl br cl cr 1.5"
    and i: "is_calibrated b \<longrightarrow> bl \<noteq> None \<and> br \<noteq> None"
    unfolding reach NeckRotationDetector_init_def by blast
  from cal d i obtain vl vr where bl: "bl = Some vl" and br: "br = Some vr" by auto
  obtain left_ratio where left:
    "calculate_ratio \<bar>fst (nose l) - fst (left_ear l)\<bar> bl = Inr left_ratio"
    unfolding bl using calculate_ratio_Some by blast
  obtain right_ratio where right:
    "calculate_ratio \<bar>fst (nose l) - fst (right_ear l)\<bar> br = Inr right_ratio"
    unfolding br using calculate_ratio_Some by blast
  note de = rotation_detect_exercise[OF left right, of b cl cr]
  have cal': "is_calibrated (base (NeckRotationDetector b bl br cl cr 1.5))"
    using cal unfolding d .
  have eq: "detect (Some l) (NeckRotationDetector b bl br cl cr 1.5)
              = perform_detection l (NeckRotationDetector b bl br cl cr 1.5)"
    by (rule detect_calibrated[OF cal'])
  have det: "detected (fst (detect (Some l) d)) = (max left_ratio right_ratio > 1.5)"
    unfolding d eq by (rule perform_detection_result(1)[OF de])
  show ?thesis
    using left right det de unfolding d by (intro exI[of _ left_ratio] exI[of _ right_ratio]) simp
qed

theorem rotation_detection_witness:
  "calibrated_rotation =
     snd (run_calls (map (\<lambda>l. Detect (Some l)) (replicate 15 (example_frame 0 100)))
            (NeckRotationDetector_init None))
   \<and> is_calibrated (base calibrated_rotation)
   \<and> detected (fst (detect (Some (example_frame 10 100)) calibrated_rotation))
   \<and> detect_exercise (example_frame 10 100) calibrated_rotation =
       Inr (True, 1 / 2,
            [(''max_ratio'', MFloat 2), (''direction'', MStr ''RIGHT''), (''threshold'', MFloat 1.5)])"
proof -
  let ?l = "example_frame 10 100"
  have reach: "calibrated_rotation =
     snd (run_calls (map (\<lambda>l. Detect (Some l)) (replicate 15 (example_frame 0 100)))
            (NeckRotationDetector_init None))"
    by (simp only: run_calls_detect_frames calibrated_rotation_def)
  have cal: "is_calibrated (base calibrated_rotation)" by (simp add: calibrated_rotation_eq)
  from rotation_detection[OF reach cal, of ?l]
  obtain left_ratio right_ratio where
    left: "calculate_ratio \<bar>fst (nose ?l) - fst (left_ear ?l)\<bar>
             (baseline_left calibrated_rotation) = Inr left_ratio"
    and right: "calculate_ratio \<bar>fst (nose ?l) - fst (right_ear ?l)\<bar>
             (baseline_right calibrated_rotation) = Inr right_ratio"
    and det: "detected (fst (detect (Some ?l) calibrated_rotation))
                = (max left_ratio right_ratio > 1.5)"
    and de: "detect_exercise ?l calibrated_rotation =
             Inr (max left_ratio right_ratio > 1.5,
                  (if max left_ratio right_ratio > 1.5
                   then max 0 (min 1 ((max left_ratio right_ratio - 1.5) / 1))
                   else 0),
                  [(''max_ratio'', MFloat (max left_ratio right_ratio)),
                   (''direction'', MStr (if left_ratio > right_ratio then ''RIGHT'' else ''LEFT'')),
                   (''threshold'', MFloat 1.5)])"
    by blast
  have l2: "left_ratio = 2"
    using left by (simp add: calibrated_rotation_eq example_frame_def calculate_ratio_def)
  have r0: "right_ratio = 0"
    using right by (simp add: calibrated_rotation_eq example_frame_def calculate_ratio_def)
  have d: "detected (fst (detect (Some ?l) calibrated_rotation))"
    using det by (simp add: l2 r0)
  have e: "detect_exercise ?l calibrated_rotation =
       Inr (True, 1 / 2,
            [(''max_ratio'', MFloat 2), (''direction'', MStr ''RIGHT''), (''threshold'', MFloat 1.5)])"
    using de by (simp add: l2 r0)
  from reach cal d e show ?thesis by blast
qed

subsection \<open>C4: the calibration phase\<close>

text \<open>
  Claim C4. From a freshly constructed detector of any of the five classes, over any sequence
  of exactly \<open>calibration_frames\<close> calls of \<open>detect\<close> with present landmarks:
  \<open>is_calibrated\<close> is false after every proper prefix of the calls and true after the last
  one, the statuses returned are \<open>CALIBRATING\<close> on every call but the last and \<open>READY\<close>
  on the last, and the baseline attribute(s) hold the median of the per-frame metric values
  of exactly these frames.
\<close>

theorem calibration_transition:
  assumes len: "length ls = calibration_frames (base (new_detector t cfg))"
  shows "(\<forall>k < length ls. \<not> is_calibrated (base (snd (detect_frames (take k ls) (new_detector t cfg)))))
       \<and> is_calibrated (base (snd (detect_frames ls (new_detector t cfg))))
       \<and> map status (fst (detect_frames ls (new_detector t cfg)))
            = replicate (length ls - 1) CALIBRATING @ [READY]
       \<and> baselines (snd (detect_frames ls (new_detector t cfg))) = spec_baselines t ls"
proof -
  let ?d = "new_detector t cfg"
  have nc: "\<not> is_calibrated (base ?d)" by simp
  have ne: "ls \<noteq> []" using len by auto
  have sum: "frames_collected (base ?d) + length ls = calibration_frames (base ?d)"
    using len by simp
  note fin = detect_frames_calibration[OF nc ne sum]
  have before: "\<not> is_calibrated (base (snd (detect_frames (take k ls) ?d)))" if "k < length ls" for k
  proof -
    have "frames_collected (base ?d) + length (take k ls) < calibration_frames (base ?d)"
      using that len by simp
    from detect_frames_calibrating[OF nc this] show ?thesis by simp
  qed
  have after: "is_calibrated (base (snd (detect_frames ls ?d)))"
    by (simp add: fin(1))
  have bl: "baselines (snd (detect_frames ls ?d)) = spec_baselines t ls"
    by (simp add: fin(1) baselines_after_calibration[OF ne])
  show ?thesis using before after fin(2) bl by blast
qed

theorem calibration_transition_witness:
  "length (replicate 15 (example_frame 0 100))
     = calibration_frames (base (new_detector CERVICAL_FLEXION None))
   \<and> \<not> is_calibrated (base (snd (detect_frames (take 14 (replicate 15 (example_frame 0 100)))
                                      (new_detector CERVICAL_FLEXION None))))
   \<and> is_calibrated (base (snd (detect_frames (replicate 15 (example_frame 0 100))
                                  (new_detector CERVICAL_FLEXION None))))
   \<and> map status (fst (detect_frames (replicate 15 (example_frame 0 100))
                        (new_detector CERVICAL_FLEXION None)))
       = replicate 14 CALIBRATING @ [READY]
   \<and> baselines (snd (detect_frames (replicate 15 (example_frame 0 100))
                       (new_detector CERVICAL_FLEXION None))) = [Some 100]"
proof -
  let ?ls = "replicate 15 (example_frame 0 100)"
  let ?d = "new_detector CERVICAL_FLEXION None"
  have h: "length ?ls = calibration_frames (base ?d)"
    by (simp add: CervicalFlexionDetector_init_def)
  note t = calibration_transition[OF h]
  from t have "\<forall>k < length ?ls. \<not> is_calibrated (base (snd (detect_frames (take k ?ls) ?d)))"
    by (rule conjunct1)
  then have "14 < length ?ls \<longrightarrow> \<not> is_calibrated (base (snd (detect_frames (take 14 ?ls) ?d)))"
    by (rule spec)
  then have a: "\<not> is_calibrated (base (snd (detect_frames (take 14 ?ls) ?d)))" by simp
  from t have b: "is_calibrated (base (snd (detect_frames ?ls ?d)))" by simp
  from t have c: "map status (fst (detect_frames ?ls ?d)) = replicate 14 CALIBRATING @ [READY]"
    by simp
  from t have "baselines (snd (detect_frames ?ls ?d)) = spec_baselines CERVICAL_FLEXION ?ls"
    by simp
  then have e: "baselines (snd (detect_frames ?ls ?d)) = [Some 100]"
    by (simp add: example_frame_metric np_median_replicate)
  from h a b c e show ?thesis by blast
qed

subsection \<open>C5: absent landmarks\<close>

text \<open>
  Claim C5. For every detector in every state, \<open>detect\<close> with absent landmarks returns
  status \<open>ERROR\<close>, detected = false and confidence 0, and the detector's state after the
  call is the state before it.
\<close>

theorem absent_landmarks_error:
  "status (fst (detect None d)) = ERROR \<and> \<not> detected (fst (detect None d))
   \<and> confidence (fst (detect None d)) = 0 \<and> snd (detect None d) = d"
  by (simp add: detect_def ExerciseResult_def)

subsection \<open>C6: the calibration settings of the configuration\<close>

text \<open>
  Claim C6 as stated: the calibration phase lasts \<open>config.calibration_frames\<close> frames and
  the smoothing factor is \<open>config.confidence_smoothing\<close>. With a configuration of 20 frames
  and factor 0.5, the flexion detector returns \<open>READY\<close> on the 15th frame, and the first
  detection, of raw confidence 1 against the previous confidence 0, has confidence 0.3.
\<close>

theorem config_ignored_counterexample:
  "system_config.calibration_frames config_20_frames = 20
   \<and> confidence_smoothing config_20_frames = 0.5
   \<and> map status (fst (detect_frames (replicate 15 (example_frame 0 100))
                        (CervicalFlexionDetector_init (Some config_20_frames))))
       = replicate 14 CALIBRATING @ [READY]
   \<and> detect_exercise (example_frame 0 50)
        (snd (detect_frames (replicate 15 (example_frame 0 100))
               (CervicalFlexionDetector_init (Some config_20_frames))))
       = Inr (True, 1, [(''distance_ratio'', MFloat 0.5), (''threshold'', MFloat 0.85)])
   \<and> confidence (fst (detect (Some (example_frame 0 50))
        (snd (detect_frames (replicate 15 (example_frame 0 100))
               (CervicalFlexionDetector_init (Some config_20_frames))))))
       = 0.3"
proof -
  let ?init = "CervicalFlexionDetector_init (Some config_20_frames)"
  let ?ls = "replicate 15 (example_frame 0 100)"
  let ?d = "snd (detect_frames ?ls ?init)"
  have nc: "\<not> is_calibrated (base ?init)" by (simp add: CervicalFlexionDetector_init_def)
  have ne: "?ls \<noteq> []" by simp
  have sum: "frames_collected (base ?init) + length ?ls = calibration_frames (base ?init)"
    by (simp add: CervicalFlexionDetector_init_def)
  have st: "map status (fst (detect_frames ?ls ?init)) = replicate 14 CALIBRATING @ [READY]"
    using detect_frames_calibration(2)[OF nc ne sum] by simp
  have d: "?d = CervicalFlexionDetector
       ((BaseDetector_init CERVICAL_FLEXION (Some config_20_frames))
          \<lparr>frames_collected := 15, is_calibrated := True\<rparr>)
       (Some 100) (replicate 15 100) 0.85"
    unfolding CervicalFlexionDetector_init_def
    by (subst flexion_calibration_state) (simp_all add: np_median_replicate)
  have c: "is_calibrated (base ?d)" by (simp add: d)
  have de: "detect_exercise (example_frame 0 50) ?d =
      Inr (True, 1, [(''distance_ratio'', MFloat 0.5), (''threshold'', MFloat 0.85)])"
    by (simp add: d calculate_ratio_def clamp01_def Let_def)
  have p: "previous_confidence (base ?d) = 0" by (simp add: d)
  have conf: "confidence (fst (detect (Some (example_frame 0 50)) ?d)) = 0.3"
    unfolding detect_calibrated[OF c] perform_detection_result(2)[OF de] p
    by (simp add: smooth_value_default_def smooth_value_def)
  have cfg: "system_config.calibration_frames config_20_frames = 20"
            "confidence_smoothing config_20_frames = 0.5"
    by (simp_all add: config_20_frames_def)
  show ?thesis using cfg st de conf by blast
qed

text \<open>
  Claim C6 as amended. For every configuration supplied at construction, the calibration
  phase of each detector lasts exactly 15 frames and the confidence of a detection is
  0.3 times the raw confidence plus 0.7 times the previous confidence, whatever the
  configuration's \<open>calibration_frames\<close> and \<open>confidence_smoothing\<close> are.
\<close>

theorem calibration_and_smoothing_fixed:
  "calibration_frames (base (new_detector t cfg)) = 15
   \<and> (length ls = 15 \<longrightarrow>
        map status (fst (detect_frames ls (new_detector t cfg))) = replicate 14 CALIBRATING @ [READY])
   \<and> (is_calibrated (base d) \<longrightarrow> detect_exercise l d = Inr (det, conf, m) \<longrightarrow>
        confidence (fst (detect (Some l) d)) = 0.3 * conf + 0.7 * previous_confidence (base d))"
proof -
  let ?d = "new_detector t cfg"
  have a: "calibration_frames (base ?d) = 15" by simp
  have b: "map status (fst (detect_frames ls ?d)) = replicate 14 CALIBRATING @ [READY]"
    if len: "length ls = 15"
  proof -
    have nc: "\<not> is_calibrated (base ?d)" by simp
    have ne: "ls \<noteq> []" using len by auto
    have sum: "frames_collected (base ?d) + length ls = calibration_frames (base ?d)"
      using len by simp
    from detect_frames_calibration(2)[OF nc ne sum] len show ?thesis by simp
  qed
  have c: "confidence (fst (detect (Some l) d)) = 0.3 * conf + 0.7 * previous_confidence (base d)"
    if cal: "is_calibrated (base d)" and de: "detect_exercise l d = Inr (det, conf, m)"
    unfolding detect_calibrated[OF cal] perform_detection_result(2)[OF de]
    by (simp add: smooth_value_default_def smooth_value_def)
  show ?thesis using a b c by blast
qed

theorem calibration_and_smoothing_fixed_witness:
  "calibration_frames (base (new_detector CERVICAL_FLEXION (Some config_20_frames))) = 15
   \<and> length (replicate 15 (example_frame 0 100)) = 15
   \<and> map status (fst (detect_frames (replicate 15 (example_frame 0 100))
                        (new_detector CERVICAL_FLEXION (Some config_20_frames))))
       = replicate 14 CALIBRATING @ [READY]
   \<and> is_calibrated (base calibrated_flexion)
   \<and> detect_exercise (example_frame 0 50) calibrated_flexion
       = Inr (True, 1, [(''distance_ratio'', MFloat 0.5), (''threshold'', MFloat 0.85)])
   \<and> confidence (fst (detect (Some (example_frame 0 50)) calibrated_flexion))
       = 0.3 * 1 + 0.7 * previous_confidence (base calibrated_flexion)"
proof -
  let ?ls = "replicate 15 (example_frame 0 100)"
  note t = calibration_and_smoothing_fixed[of CERVICAL_FLEXION "Some config_20_frames" ?ls
      calibrated_flexion "example_frame 0 50" True 1
      "[(''distance_ratio'', MFloat 0.5), (''threshold'', MFloat 0.85)]"]
  have len: "length ?ls = 15" by simp
  have c: "is_calibrated (base calibrated_flexion)" by (simp add: calibrated_flexion_eq)
  have de: "detect_exercise (example_frame 0 50) calibrated_flexion
       = Inr (True, 1, [(''distance_ratio'', MFloat 0.5), (''threshold'', MFloat 0.85)])"
    by (simp add: calibrated_flexion_eq calculate_ratio_def clamp01_def Let_def)
  from t len c de show ?thesis by blast
qed

subsection \<open>C7: an invalid calibration-frame count\<close>

text \<open>
  Claim C7 as stated: construction with a calibration-frame count of 0 or less is rejected.
  With the count 0 the coordinator is constructed, holds that configuration and its five
  detectors, and a detector built from it has the calibration length 15 and answers its first
  frame with \<open>CALIBRATING\<close>.
\<close>

theorem invalid_config_accepted_counterexample:
  "system_config.calibration_frames config_0_frames = 0
   \<and> exercise_detection_system.config (ExerciseDetectionSystem_init (Some config_0_frames) 0)
       = config_0_frames
   \<and> map fst (detectors (ExerciseDetectionSystem_init (Some config_0_frames) 0)) =
       [CERVICAL_FLEXION, CERVICAL_EXTENSION, LATERAL_NECK_TILT, NECK_ROTATION, CHIN_TUCK]
   \<and> calibration_frames (base (CervicalFlexionDetector_init (Some config_0_frames))) = 15
   \<and> status (fst (detect (Some (example_frame 0 100))
                (CervicalFlexionDetector_init (Some config_0_frames)))) = CALIBRATING"
  by (simp add: config_0_frames_def ExerciseDetectionSystem_init_def Let_def
        CervicalFlexionDetector_init_def detect_def handle_calibration_def ExerciseResult_def)

text \<open>
  Claim C7 as amended. Construction accepts every configuration, so also one whose
  calibration-frame count is 0 or negative: the coordinator stores the configuration and
  builds its five detectors from it, and each detector stores it, has the calibration length
  15 and answers a first frame with present landmarks with \<open>CALIBRATING\<close>.
\<close>

theorem construction_accepts_any_config:
  "exercise_detection_system.config (ExerciseDetectionSystem_init (Some cfg) now) = cfg
   \<and> detectors (ExerciseDetectionSystem_init (Some cfg) now) =
       map (\<lambda>t. (t, new_detector t (Some cfg)))
         [CERVICAL_FLEXION, CERVICAL_EXTENSION, LATERAL_NECK_TILT, NECK_ROTATION, CHIN_TUCK]
   \<and> base_detector.config (base (new_detector t (Some cfg))) = cfg
   \<and> calibration_frames (base (new_detector t (Some cfg))) = 15
   \<and> status (fst (detect (Some l) (new_detector t (Some cfg)))) = CALIBRATING"
proof -
  let ?d = "new_detector t (Some cfg)"
  have nc: "\<not> is_calibrated (base ?d)" by simp
  have lt: "frames_collected (base ?d) + length [l] < calibration_frames (base ?d)" by simp
  have "map status (fst (detect_frames [l] ?d)) = replicate (length [l]) CALIBRATING"
    using detect_frames_calibrating[OF nc lt] by blast
  then have st: "status (fst (detect (Some l) ?d)) = CALIBRATING"
    by (simp add: split_beta)
  show ?thesis
    by (simp add: st ExerciseDetectionSystem_init_def Let_def BaseDetector_init_def)
qed

subsection \<open>C8: confidences stay in the unit interval\<close>

text \<open>
  Claim C8. For a detector of any class and any sequence of \<open>detect\<close> calls, with present
  or absent landmarks, interleaved with resets: the confidence of every result lies in
  [0, 1], and so does the stored previous confidence after every call.
\<close>

theorem confidence_in_unit_interval:
  "(\<forall>r \<in> set (fst (run_calls cs (new_detector t cfg))). 0 \<le> confidence r \<and> confidence r \<le> 1)
   \<and> (\<forall>k \<le> length cs.
         0 \<le> previous_confidence (base (snd (run_calls (take k cs) (new_detector t cfg))))
         \<and> previous_confidence (base (snd (run_calls (take k cs) (new_detector t cfg)))) \<le> 1)"
proof -
  have p: "0 \<le> previous_confidence (base (new_detector t cfg))"
          "previous_confidence (base (new_detector t cfg)) \<le> 1"
    by simp_all
  show ?thesis using run_calls_confidence[OF p] by blast
qed

theorem confidence_in_unit_interval_witness:
  "0 \<le> confidence (fst (detect (Some (example_frame 0 100)) (new_detector CHIN_TUCK None)))
   \<and> confidence (fst (detect (Some (example_frame 0 100)) (new_detector CHIN_TUCK None))) \<le> 1
   \<and> 0 \<le> previous_confidence (base (snd (run_calls
            [Detect (Some (example_frame 0 100)), Reset, Detect None] (new_detector CHIN_TUCK None))))
   \<and> previous_confidence (base (snd (run_calls
            [Detect (Some (example_frame 0 100)), Reset, Detect None] (new_detector CHIN_TUCK None))))
       \<le> 1"
proof -
  let ?cs = "[Detect (Some (example_frame 0 100)), Reset, Detect None]"
  let ?d = "new_detector CHIN_TUCK None"
  let ?r = "fst (detect (Some (example_frame 0 100)) ?d)"
  note t = confidence_in_unit_interval[of ?cs CHIN_TUCK None]
  have mem: "?r \<in> set (fst (run_calls ?cs ?d))"
    by (simp add: split_beta Let_def)
  from t have "\<forall>r \<in> set (fst (run_calls ?cs ?d)). 0 \<le> confidence r \<and> confidence r \<le> 1"
    by (rule conjunct1)
  then have a: "0 \<le> confidence ?r \<and> confidence ?r \<le> 1" using mem by (rule bspec)
  from t have "\<forall>k \<le> length ?cs.
         0 \<le> previous_confidence (base (snd (run_calls (take k ?cs) ?d)))
         \<and> previous_confidence (base (snd (run_calls (take k ?cs) ?d))) \<le> 1"
    by (rule conjunct2)
  then have "3 \<le> length ?cs \<longrightarrow>
         0 \<le> previous_confidence (base (snd (run_calls (take 3 ?cs) ?d)))
         \<and> previous_confidence (base (snd (run_calls (take 3 ?cs) ?d))) \<le> 1"
    by (rule spec)
  then have b: "0 \<le> previous_confidence (base (snd (run_calls ?cs ?d)))
         \<and> previous_confidence (base (snd (run_calls ?cs ?d))) \<le> 1"
    by simp
  from a b show ?thesis by blast
qed

subsection \<open>C9: one detector raising\<close>

text \<open>
  Claim C9. When the \<open>detect\<close> call of one detector raises during a frame, the mapping
  that \<open>detect_exercises\<close> returns still has an entry for every exercise type: the entry
  of the raising detector is an \<open>ERROR\<close> result that carries the exception's text, and
  the entry of every other detector is the result its own call returned.
\<close>

theorem coordinator_isolation:
  assumes keys: "map fst (detectors s) =
                   [CERVICAL_FLEXION, CERVICAL_EXTENSION, LATERAL_NECK_TILT, NECK_ROTATION, CHIN_TUCK]"
      and failing: "map_of (detectors s) t = Some d"
      and raises: "fst (dm (extract_landmarks pr fs) d) = Inl e"
  shows "dom (fst (detect_exercises_with dm pr fs s)) = UNIV
       \<and> fst (detect_exercises_with dm pr fs s) t =
           Some (ExerciseResult t False 0.0 ERROR [Lit ''Error: '', Lit (str_exn e)] None)
       \<and> (\<forall>t' d' r. t' \<noteq> t \<longrightarrow> map_of (detectors s) t' = Some d'
             \<longrightarrow> fst (dm (extract_landmarks pr fs) d') = Inr r
             \<longrightarrow> fst (detect_exercises_with dm pr fs s) t' = Some r)"
proof -
  let ?lm = "extract_landmarks pr fs"
  have dist: "distinct (map fst (detectors s))" by (simp add: keys)
  have res: "fst (detect_exercises_with dm pr fs s) = fst (run_detectors dm ?lm (detectors s) Map.empty)"
    by (simp add: detect_exercises_with_def Let_def split_beta)
  note look = run_detectors_lookup[OF dist, of dm ?lm Map.empty]
  have some: "map_of (detectors s) t' \<noteq> None" for t'
  proof -
    have "t' \<in> set (map fst (detectors s))" unfolding keys by (cases t') simp_all
    then show ?thesis by (simp add: map_of_eq_None_iff)
  qed
  have dom: "dom (fst (detect_exercises_with dm pr fs s)) = UNIV"
  proof -
    have "fst (detect_exercises_with dm pr fs s) t' \<noteq> None" for t'
      using some[of t'] by (auto simp: res look split: option.splits sum.splits)
    then show ?thesis by auto
  qed
  have at: "fst (detect_exercises_with dm pr fs s) t =
           Some (ExerciseResult t False 0.0 ERROR [Lit ''Error: '', Lit (str_exn e)] None)"
    by (simp add: res look failing raises)
  have others: "fst (detect_exercises_with dm pr fs s) t' = Some r"
    if "map_of (detectors s) t' = Some d'" "fst (dm ?lm d') = Inr r" for t' d' r
    using that by (simp add: res look)
  show ?thesis using dom at others by blast
qed

theorem coordinator_isolation_witness:
  "map fst (detectors (ExerciseDetectionSystem_init None 0)) =
     [CERVICAL_FLEXION, CERVICAL_EXTENSION, LATERAL_NECK_TILT, NECK_ROTATION, CHIN_TUCK]
   \<and> map_of (detectors (ExerciseDetectionSystem_init None 0)) CHIN_TUCK
       = Some (ChinTuckDetector_init (Some SystemConfig))
   \<and> fst (chin_tuck_raises (extract_landmarks \<lparr>pose_landmarks = None\<rparr> (480, 640))
            (ChinTuckDetector_init (Some SystemConfig))) = Inl (RuntimeError ''chin tuck failed'')
   \<and> dom (fst (detect_exercises_with chin_tuck_raises \<lparr>pose_landmarks = None\<rparr> (480, 640)
                 (ExerciseDetectionSystem_init None 0))) = UNIV
   \<and> fst (detect_exercises_with chin_tuck_raises \<lparr>pose_landmarks = None\<rparr> (480, 640)
            (ExerciseDetectionSystem_init None 0)) CHIN_TUCK
       = Some (ExerciseResult CHIN_TUCK False 0.0 ERROR
                 [Lit ''Error: '', Lit ''chin tuck failed''] None)
   \<and> fst (detect_exercises_with chin_tuck_raises \<lparr>pose_landmarks = None\<rparr> (480, 640)
            (ExerciseDetectionSystem_init None 0)) NECK_ROTATION
       = Some (fst (detect None (NeckRotationDetector_init (Some SystemConfig))))"
proof -
  let ?s = "ExerciseDetectionSystem_init None 0"
  let ?pr = "\<lparr>pose_landmarks = None\<rparr>"
  let ?fs = "(480, 640) :: real \<times> real"
  let ?e = "RuntimeError ''chin tuck failed''"
  have keys: "map fst (detectors ?s) =
     [CERVICAL_FLEXION, CERVICAL_EXTENSION, LATERAL_NECK_TILT, NECK_ROTATION, CHIN_TUCK]"
    by (simp add: ExerciseDetectionSystem_init_def)
  have failing: "map_of (detectors ?s) CHIN_TUCK = Some (ChinTuckDetector_init (Some SystemConfig))"
    by (simp add: ExerciseDetectionSystem_init_def)
  have raises: "fst (chin_tuck_raises (extract_landmarks ?pr ?fs)
                       (ChinTuckDetector_init (Some SystemConfig))) = Inl ?e"
    by (simp add: chin_tuck_raises_def ChinTuckDetector_init_def)
  note t = coordinator_isolation[where s = ?s and t = CHIN_TUCK and dm = chin_tuck_raises
      and d = "ChinTuckDetector_init (Some SystemConfig)" and pr = ?pr and fs = ?fs and e = ?e,
      OF keys failing raises]
  have lm: "extract_landmarks ?pr ?fs = None" by (simp add: extract_landmarks_def)
  have rot: "map_of (detectors ?s) NECK_ROTATION = Some (NeckRotationDetector_init (Some SystemConfig))"
    by (simp add: ExerciseDetectionSystem_init_def)
  have ok: "fst (chin_tuck_raises (extract_landmarks ?pr ?fs)
                   (NeckRotationDetector_init (Some SystemConfig)))
              = Inr (fst (detect None (NeckRotationDetector_init (Some SystemConfig))))"
    by (simp add: lm chin_tuck_raises_def NeckRotationDetector_init_def detect_method_def
          split_beta)
  from t rot ok
  have other: "fst (detect_exercises_with chin_tuck_raises ?pr ?fs ?s) NECK_ROTATION
       = Some (fst (detect None (NeckRotationDetector_init (Some SystemConfig))))"
    by blast
  from t have dom: "dom (fst (detect_exercises_with chin_tuck_raises ?pr ?fs ?s)) = UNIV"
    by (rule conjunct1)
  from t have err: "fst (detect_exercises_with chin_tuck_raises ?pr ?fs ?s) CHIN_TUCK
       = Some (ExerciseResult CHIN_TUCK False 0.0 ERROR
                 [Lit ''Error: '', Lit ''chin tuck failed''] None)"
    by simp
  from keys failing raises dom err other show ?thesis by blast
qed

subsection \<open>C10: cervical flexion end to end\<close>

text \<open>
  Claim C10. A fresh cervical-flexion detector calibrated over 15 frames whose
  nose-to-mid-shoulder distance is 100 has baseline 100, and on a following frame at distance
  80 \<open>_detect_exercise\<close> returns detected = true with the raw confidence
  (0.85 - 0.8) / 0.15 = 1/3.
\<close>

theorem flexion_end_to_end:
  assumes len: "length ls = 15"
      and cal: "\<forall>l \<in> set ls. shoulder_distance l = 100"
      and live: "shoulder_distance l' = 80"
  shows "baseline_distance (snd (detect_frames ls (CervicalFlexionDetector_init cfg))) = Some 100
       \<and> detect_exercise l' (snd (detect_frames ls (CervicalFlexionDetector_init cfg)))
           = Inr (True, 1 / 3, [(''distance_ratio'', MFloat 0.8), (''threshold'', MFloat 0.85)])"
proof -
  let ?d = "CervicalFlexionDetector_init cfg"
  have nc: "\<not> is_calibrated (base ?d)" by (simp add: CervicalFlexionDetector_init_def)
  have ne: "ls \<noteq> []" using len by auto
  have sum: "frames_collected (base ?d) + length ls = calibration_frames (base ?d)"
    using len by (simp add: CervicalFlexionDetector_init_def)
  have med: "np_median (map shoulder_distance ls) = 100"
    using ne cal by (intro np_median_constant) auto
  have d': "snd (detect_frames ls ?d) =
          CervicalFlexionDetector
            ((BaseDetector_init CERVICAL_FLEXION cfg)\<lparr>frames_collected := 15, is_calibrated := True\<rparr>)
            (Some 100) (map shoulder_distance ls) 0.85"
    using ne len
    by (simp add: detect_frames_calibration(1)[OF nc ne sum])
       (simp add: CervicalFlexionDetector_init_def fold_collect_flexion med)
  show ?thesis
    by (simp add: d' live calculate_ratio_def clamp01_def Let_def)
qed

theorem flexion_end_to_end_witness:
  "length (replicate 15 (example_frame 0 100)) = 15
   \<and> shoulder_distance (example_frame 0 100) = 100
   \<and> shoulder_distance (example_frame 0 80) = 80
   \<and> baseline_distance (snd (detect_frames (replicate 15 (example_frame 0 100))
                               (CervicalFlexionDetector_init None))) = Some 100
   \<and> detect_exercise (example_frame 0 80)
        (snd (detect_frames (replicate 15 (example_frame 0 100)) (CervicalFlexionDetector_init None)))
       = Inr (True, 1 / 3, [(''distance_ratio'', MFloat 0.8), (''threshold'', MFloat 0.85)])"
proof -
  let ?ls = "replicate 15 (example_frame 0 100)"
  have h1: "length ?ls = 15" by simp
  have s: "shoulder_distance (example_frame 0 100) = 100" by simp
  have h2: "\<forall>l \<in> set ?ls. shoulder_distance l = 100" by simp
  have h3: "shoulder_distance (example_frame 0 80) = 80" by simp
  note t = flexion_end_to_end[OF h1 h2 h3, of None]
  from h1 s h3 t show ?thesis by blast
qed

end
